theory Spec2Isabelle
  imports Complex_Main "HOL-Library.Log_Nat"
begin

section \<open>Python values\<close>

text \<open>
  \<^verbatim>\<open>fetch_weather.py\<close> works on the values that \<^verbatim>\<open>r.json()\<close> returns: \<^verbatim>\<open>None\<close>,
  booleans, unbounded integers, floats, strings, lists and dictionaries with string keys.
  A float is an IEEE binary64 value, written here by the rational number it denotes
  (both zeros are \<open>Finite 0\<close>), or one of the three special values. A string is a list
  of characters with code points below 256. A dictionary is an association list that
  is read with \<open>map_of\<close>.
\<close>

datatype pyfloat = Finite rat | PosInf | NegInf | NaN

datatype pyval =
    PNone
  | PBool bool
  | PInt int
  | PFloat pyfloat
  | PStr string
  | PList "pyval list"
  | PDict "(string \<times> pyval) list"

datatype exn_class =
    AttributeError | TypeError | KeyError | IndexError | ValueError | OverflowError
  | HTTPError | RequestException | JSONDecodeError | OSError

text \<open>An exception object: its class and the text that \<^verbatim>\<open>str(e)\<close> gives.\<close>

datatype exn = Exn exn_class string

fun message :: "exn \<Rightarrow> string" where
  "message (Exn c m) = m"

definition bind_exn :: "'e + 'a \<Rightarrow> ('a \<Rightarrow> 'e + 'b) \<Rightarrow> 'e + 'b" where
  "bind_exn m f = (case m of Inl e \<Rightarrow> Inl e | Inr x \<Rightarrow> f x)"

fun type_name :: "pyval \<Rightarrow> string" where
  "type_name PNone = ''NoneType''"
| "type_name (PBool b) = ''bool''"
| "type_name (PInt n) = ''int''"
| "type_name (PFloat f) = ''float''"
| "type_name (PStr s) = ''str''"
| "type_name (PList xs) = ''list''"
| "type_name (PDict kvs) = ''dict''"

definition quoted :: "string \<Rightarrow> string" where
  "quoted s = CHR 0x27 # s @ [CHR 0x27]"

text \<open>Truth value of an object, as \<^verbatim>\<open>x or y\<close> tests it.\<close>

fun truthy :: "pyval \<Rightarrow> bool" where
  "truthy PNone = False"
| "truthy (PBool b) = b"
| "truthy (PInt n) = (n \<noteq> 0)"
| "truthy (PFloat f) = (f \<noteq> Finite 0)"
| "truthy (PStr s) = (s \<noteq> [])"
| "truthy (PList xs) = (xs \<noteq> [])"
| "truthy (PDict kvs) = (kvs \<noteq> [])"

definition py_or :: "pyval \<Rightarrow> pyval \<Rightarrow> pyval" where
  "py_or x y = (if truthy x then x else y)"

text \<open>\<^verbatim>\<open>obj.get(k, d)\<close>: only a dictionary has the method.\<close>

definition py_get :: "pyval \<Rightarrow> string \<Rightarrow> pyval \<Rightarrow> exn + pyval" where
  "py_get obj k d =
     (case obj of
        PDict kvs \<Rightarrow> Inr (case map_of kvs k of Some v \<Rightarrow> v | None \<Rightarrow> d)
      | _ \<Rightarrow> Inl (Exn AttributeError
                 (quoted (type_name obj) @ '' object has no attribute '' @ quoted ''get'')))"

text \<open>\<^verbatim>\<open>len(x)\<close>: lists, strings and dictionaries have a length.\<close>

definition py_len :: "pyval \<Rightarrow> exn + nat" where
  "py_len x =
     (case x of
        PList xs \<Rightarrow> Inr (length xs)
      | PStr s \<Rightarrow> Inr (length s)
      | PDict kvs \<Rightarrow> Inr (length (remdups (map fst kvs)))
      | _ \<Rightarrow> Inl (Exn TypeError (''object of type '' @ quoted (type_name x) @ '' has no len()'')))"

section \<open>Decimal numerals\<close>

definition digit_char :: "nat \<Rightarrow> char" where
  "digit_char d = char_of (48 + d)"

fun dec :: "nat \<Rightarrow> string" where
  "dec n = (if n < 10 then [digit_char n] else dec (n div 10) @ [digit_char (n mod 10)])"

declare dec.simps [simp del]

definition zpad :: "nat \<Rightarrow> nat \<Rightarrow> string" where
  "zpad w n = replicate (w - length (dec n)) (CHR ''0'') @ dec n"

text \<open>
  \<^verbatim>\<open>x[i]\<close> for a non-negative integer \<open>i\<close>. The keys of a dictionary are strings, so
  an integer is never among them.
\<close>

definition py_index :: "pyval \<Rightarrow> nat \<Rightarrow> exn + pyval" where
  "py_index x i =
     (case x of
        PList xs \<Rightarrow>
          if i < length xs then Inr (xs ! i) else Inl (Exn IndexError ''list index out of range'')
      | PStr s \<Rightarrow>
          if i < length s then Inr (PStr [s ! i]) else Inl (Exn IndexError ''string index out of range'')
      | PDict kvs \<Rightarrow> Inl (Exn KeyError (dec i))
      | _ \<Rightarrow> Inl (Exn TypeError (quoted (type_name x) @ '' object is not subscriptable'')))"

section \<open>The builtin conversions \<^verbatim>\<open>float\<close>, \<^verbatim>\<open>round\<close> and \<^verbatim>\<open>int\<close>\<close>

text \<open>Nearest integer, a tie going to the even neighbour: \<^verbatim>\<open>round(x)\<close> on a finite float.\<close>

definition round_half_even :: "rat \<Rightarrow> int" where
  "round_half_even q =
     (let f = \<lfloor>q\<rfloor>; d = q - of_int f
      in if d < 1 / 2 then f else if 1 / 2 < d then f + 1 else if even f then f else f + 1)"

definition pow2 :: "int \<Rightarrow> rat" where
  "pow2 e = (if 0 \<le> e then of_int (2 ^ nat e) else 1 / of_int (2 ^ nat (- e)))"

definition pow10 :: "int \<Rightarrow> rat" where
  "pow10 e = (if 0 \<le> e then of_int (10 ^ nat e) else 1 / of_int (10 ^ nat (- e)))"

text \<open>For \<open>0 < a\<close>, the exponent \<open>e\<close> with \<open>2\<^sup>e \<le> a < 2\<^sup>e\<^sup>+\<^sup>1\<close>.\<close>

definition ilog2 :: "rat \<Rightarrow> int" where
  "ilog2 a =
     (case quotient_of a of
        (p, q) \<Rightarrow> let d = bitlen p - bitlen q in if pow2 d \<le> a then d else d - 1)"

text \<open>
  The binary64 value nearest to a rational number (ties to the even significand):
  53 significant bits, the least exponent of a unit in the last place is \<open>-1074\<close>, and
  a result of \<open>2\<^sup>1\<^sup>0\<^sup>2\<^sup>4\<close> or more is an infinity.
\<close>

definition round_to_double :: "rat \<Rightarrow> pyfloat" where
  "round_to_double q =
     (if q = 0 then Finite 0
      else let a = \<bar>q\<bar>;
               u = max (ilog2 a - 52) (- 1074);
               v = of_int (round_half_even (a / pow2 u)) * pow2 u
           in if pow2 1024 \<le> v then (if q < 0 then NegInf else PosInf)
              else Finite (if q < 0 then - v else v))"

subsection \<open>\<^verbatim>\<open>float(s)\<close> for a string\<close>

definition is_space :: "char \<Rightarrow> bool" where
  "is_space c = ((of_char c :: nat) \<in> {9, 10, 11, 12, 13, 32, 133, 160})"

definition is_digit :: "char \<Rightarrow> bool" where
  "is_digit c = (48 \<le> (of_char c :: nat) \<and> (of_char c :: nat) \<le> 57)"

definition digit_val :: "char \<Rightarrow> int" where
  "digit_val c = of_char c - 48"

definition lower :: "char \<Rightarrow> char" where
  "lower c = (if 65 \<le> (of_char c :: nat) \<and> (of_char c :: nat) \<le> 90
              then char_of ((of_char c :: nat) + 32) else c)"

definition strip :: "string \<Rightarrow> string" where
  "strip s = rev (dropWhile is_space (rev (dropWhile is_space s)))"

text \<open>
  A run of digits in which single underscores may stand between two digits; returns
  the digits read and the rest of the input.
\<close>

fun digit_run :: "string \<Rightarrow> int list \<times> string" where
  "digit_run [] = ([], [])"
| "digit_run (c # cs) =
     (if \<not> is_digit c then ([], c # cs)
      else case cs of
             u # d # cs' \<Rightarrow>
               if u = CHR ''_'' \<and> is_digit d
               then (case digit_run (d # cs') of (ds, r) \<Rightarrow> (digit_val c # ds, r))
               else (case digit_run cs of (ds, r) \<Rightarrow> (digit_val c # ds, r))
           | _ \<Rightarrow> (case digit_run cs of (ds, r) \<Rightarrow> (digit_val c # ds, r)))"

definition digits_value :: "int list \<Rightarrow> int" where
  "digits_value ds = foldl (\<lambda>a d. 10 * a + d) 0 ds"

definition take_sign :: "string \<Rightarrow> bool \<times> string" where
  "take_sign s =
     (case s of
        c # r \<Rightarrow> if c = CHR ''-'' then (True, r) else if c = CHR ''+'' then (False, r) else (False, s)
      | [] \<Rightarrow> (False, s))"

text \<open>
  An unsigned decimal number with an optional exponent, covering the whole string:
  digits, an optional point and more digits (at least one digit in all), then
  optionally \<open>e\<close> or \<open>E\<close>, a sign and digits.
\<close>

definition float_number :: "string \<Rightarrow> rat option" where
  "float_number s =
     (case digit_run s of
        (ip, r1) \<Rightarrow>
          (case (case r1 of c # r \<Rightarrow> if c = CHR ''.'' then digit_run r else ([], r1)
                          | [] \<Rightarrow> ([], [])) of
             (fp, r2) \<Rightarrow>
               if ip = [] \<and> fp = [] then None
               else let m = of_int (digits_value (ip @ fp)) :: rat;
                        k = int (length fp)
                    in (case r2 of
                          [] \<Rightarrow> Some (m * pow10 (- k))
                        | c # r \<Rightarrow>
                            if c = CHR ''e'' \<or> c = CHR ''E''
                            then (case take_sign r of
                                    (neg, r3) \<Rightarrow>
                                      (case digit_run r3 of
                                         (ed, r4) \<Rightarrow>
                                           if ed = [] \<or> r4 \<noteq> [] then None
                                           else let x = digits_value ed
                                                in Some (m * pow10 ((if neg then - x else x) - k))))
                            else None)))"

text \<open>
  \<^verbatim>\<open>float(s)\<close>: surrounding white space is dropped; then a sign and one of
  \<^verbatim>\<open>inf\<close>, \<^verbatim>\<open>infinity\<close>, \<^verbatim>\<open>nan\<close> (in any case) or a decimal number. \<open>None\<close> stands
  for the \<^verbatim>\<open>ValueError\<close> of a string that is none of these.
\<close>

definition float_of_str :: "string \<Rightarrow> pyfloat option" where
  "float_of_str s =
     (case take_sign (strip s) of
        (neg, r) \<Rightarrow>
          let w = map lower r
          in if w = ''inf'' \<or> w = ''infinity'' then Some (if neg then NegInf else PosInf)
             else if w = ''nan'' then Some NaN
             else map_option (\<lambda>q. round_to_double (if neg then - q else q)) (float_number r))"

text \<open>
  \<^verbatim>\<open>float(x)\<close>. An integer too large for a binary64 value raises \<^verbatim>\<open>OverflowError\<close>,
  a boolean is the integer 0 or 1, a list, a dictionary and \<^verbatim>\<open>None\<close> raise
  \<^verbatim>\<open>TypeError\<close>. Only the class of the exception is kept: the callers below catch it.
\<close>

definition float_of_int :: "int \<Rightarrow> exn_class + pyfloat" where
  "float_of_int n =
     (case round_to_double (of_int n) of
        Finite q \<Rightarrow> Inr (Finite q)
      | _ \<Rightarrow> Inl OverflowError)"

fun py_float :: "pyval \<Rightarrow> exn_class + pyfloat" where
  "py_float PNone = Inl TypeError"
| "py_float (PBool b) = Inr (Finite (if b then 1 else 0))"
| "py_float (PInt n) = float_of_int n"
| "py_float (PFloat f) = Inr f"
| "py_float (PStr s) = (case float_of_str s of Some f \<Rightarrow> Inr f | None \<Rightarrow> Inl ValueError)"
| "py_float (PList xs) = Inl TypeError"
| "py_float (PDict kvs) = Inl TypeError"

text \<open>\<^verbatim>\<open>round(f)\<close> with one argument returns an integer, and fails on the special values.\<close>

fun py_round :: "pyfloat \<Rightarrow> exn_class + int" where
  "py_round (Finite q) = Inr (round_half_even q)"
| "py_round PosInf = Inl OverflowError"
| "py_round NegInf = Inl OverflowError"
| "py_round NaN = Inl ValueError"

section \<open>The helpers of \<^verbatim>\<open>fetch_weather.py\<close>\<close>

text \<open>
  \<^verbatim>\<open>
  def _safe_float(x):
      try:
          return None if x is None else float(x)
      except Exception:
          return None
  \<close>
\<close>

definition safe_float :: "pyval \<Rightarrow> pyval" where
  "safe_float x =
     (if x = PNone then PNone
      else case py_float x of Inr f \<Rightarrow> PFloat f | Inl e \<Rightarrow> PNone)"

text \<open>
  \<^verbatim>\<open>
  def _safe_int(x):
      try:
          return None if x is None else int(round(float(x)))
      except Exception:
          return None
  \<close>
  \<^verbatim>\<open>int\<close> of the integer that \<^verbatim>\<open>round\<close> returns is that integer.
\<close>

definition safe_int :: "pyval \<Rightarrow> pyval" where
  "safe_int x =
     (if x = PNone then PNone
      else case bind_exn (py_float x) py_round of Inr n \<Rightarrow> PInt n | Inl e \<Rightarrow> PNone)"

section \<open>The clock\<close>

text \<open>
  \<^verbatim>\<open>datetime.utcnow()\<close> reads the system clock; the reading is an input of the model.
  \<^verbatim>\<open>
  def _now_utc_iso():
      return datetime.utcnow().isoformat(timespec="seconds") + "+00:00"
  \<close>
\<close>

record datetime =
  year :: nat
  month :: nat
  day :: nat
  hour :: nat
  minute :: nat
  second :: nat
  microsecond :: nat

definition isoformat_seconds :: "datetime \<Rightarrow> string" where
  "isoformat_seconds t =
     zpad 4 (year t) @ ''-'' @ zpad 2 (month t) @ ''-'' @ zpad 2 (day t) @ ''T'' @
     zpad 2 (hour t) @ '':'' @ zpad 2 (minute t) @ '':'' @ zpad 2 (second t)"

definition now_utc_iso :: "datetime \<Rightarrow> string" where
  "now_utc_iso utcnow = isoformat_seconds utcnow @ ''+00:00''"

section \<open>The output document\<close>

record meta =
  place_name :: pyval
  lat :: pyval
  lon :: pyval
  timezone :: pyval
  source :: string
  generated_utc :: string

record current =
  temperature_c :: pyval
  feels_like_c :: pyval
  humidity_pct :: pyval
  wind_speed_kmh :: pyval
  wind_dir_deg :: pyval
  wind_gust_kmh :: pyval
  weather_code :: pyval

record hourly_row =
  time :: pyval
  temperature_c :: pyval
  feels_like_c :: pyval
  precip_prob_pct :: pyval
  wind_speed_kmh :: pyval
  wind_dir_deg :: pyval
  wind_gust_kmh :: pyval
  weather_code :: pyval

record daily_row =
  date :: pyval
  tmax_c :: pyval
  tmin_c :: pyval
  weather_code :: pyval
  precip_prob_pct :: pyval

record document =
  meta :: meta
  current :: current
  hourly :: "hourly_row list"
  daily :: "daily_row list"

section \<open>\<^verbatim>\<open>build_json\<close>\<close>

text \<open>\<^verbatim>\<open>obj.get(k, d) or d\<close>\<close>

definition get_or :: "pyval \<Rightarrow> string \<Rightarrow> pyval \<Rightarrow> exn + pyval" where
  "get_or obj k d = bind_exn (py_get obj k d) (\<lambda>v. Inr (py_or v d))"

text \<open>\<^verbatim>\<open>conv(arr[i]) if i < len(arr) else None\<close>\<close>

definition cell :: "(pyval \<Rightarrow> pyval) \<Rightarrow> pyval \<Rightarrow> nat \<Rightarrow> exn + pyval" where
  "cell conv arr i =
     bind_exn (py_len arr) (\<lambda>n.
       if i < n then bind_exn (py_index arr i) (\<lambda>v. Inr (conv v)) else Inr PNone)"

text \<open>
  \<^verbatim>\<open>for i in range(keep): rows.append(row(i))\<close>, started at \<open>i\<close> with the rows
  appended so far; the first exception ends the loop.
\<close>

function for_range :: "(nat \<Rightarrow> exn + 'a) \<Rightarrow> nat \<Rightarrow> nat \<Rightarrow> 'a list \<Rightarrow> exn + 'a list" where
  "for_range row i keep rows =
     (if i < keep
      then (case row i of Inl e \<Rightarrow> Inl e | Inr r \<Rightarrow> for_range row (Suc i) keep (rows @ [r]))
      else Inr rows)"
  by pat_completeness auto
termination
  by (relation "measure (\<lambda>(row, i, keep, rows). keep - i)") auto

declare for_range.simps [simp del]

text \<open>
  \<^verbatim>\<open>
  cur = raw.get("current", {}) or {}
  current = {
      "temperature_c": _safe_float(cur.get("temperature_2m")),
      "feels_like_c": _safe_float(cur.get("apparent_temperature")),
      "humidity_pct": _safe_int(cur.get("relative_humidity_2m")),
      "wind_speed_kmh": _safe_float(cur.get("wind_speed_10m")),
      "wind_dir_deg": _safe_int(cur.get("wind_direction_10m")),
      "wind_gust_kmh": _safe_float(cur.get("wind_gusts_10m")),
      "weather_code": _safe_int(cur.get("weather_code")),
  }
  \<close>
\<close>

definition current_section :: "pyval \<Rightarrow> exn + current" where
  "current_section raw =
     bind_exn (get_or raw ''current'' (PDict [])) (\<lambda>cur.
     bind_exn (py_get cur ''temperature_2m'' PNone) (\<lambda>v1.
     bind_exn (py_get cur ''apparent_temperature'' PNone) (\<lambda>v2.
     bind_exn (py_get cur ''relative_humidity_2m'' PNone) (\<lambda>v3.
     bind_exn (py_get cur ''wind_speed_10m'' PNone) (\<lambda>v4.
     bind_exn (py_get cur ''wind_direction_10m'' PNone) (\<lambda>v5.
     bind_exn (py_get cur ''wind_gusts_10m'' PNone) (\<lambda>v6.
     bind_exn (py_get cur ''weather_code'' PNone) (\<lambda>v7.
       Inr \<lparr> current.temperature_c = safe_float v1,
             current.feels_like_c = safe_float v2,
             current.humidity_pct = safe_int v3,
             current.wind_speed_kmh = safe_float v4,
             current.wind_dir_deg = safe_int v5,
             current.wind_gust_kmh = safe_float v6,
             current.weather_code = safe_int v7 \<rparr>))))))))"

text \<open>The dictionary appended for position \<open>i\<close> of the hourly loop, its values in order.\<close>

definition hourly_entry ::
  "pyval \<Rightarrow> pyval \<Rightarrow> pyval \<Rightarrow> pyval \<Rightarrow> pyval \<Rightarrow> pyval \<Rightarrow> pyval \<Rightarrow> pyval \<Rightarrow> nat \<Rightarrow> exn + hourly_row" where
  "hourly_entry times' temp feels pop wind wdir gust wcode i =
     bind_exn (py_index times' i) (\<lambda>t.
     bind_exn (cell safe_float temp i) (\<lambda>v1.
     bind_exn (cell safe_float feels i) (\<lambda>v2.
     bind_exn (cell safe_int pop i) (\<lambda>v3.
     bind_exn (cell safe_float wind i) (\<lambda>v4.
     bind_exn (cell safe_int wdir i) (\<lambda>v5.
     bind_exn (cell safe_float gust i) (\<lambda>v6.
     bind_exn (cell safe_int wcode i) (\<lambda>v7.
       Inr \<lparr> time = t,
             hourly_row.temperature_c = v1,
             hourly_row.feels_like_c = v2,
             hourly_row.precip_prob_pct = v3,
             hourly_row.wind_speed_kmh = v4,
             hourly_row.wind_dir_deg = v5,
             hourly_row.wind_gust_kmh = v6,
             hourly_row.weather_code = v7 \<rparr>))))))))"

text \<open>
  \<^verbatim>\<open>
  hourly = []
  h = raw.get("hourly", {}) or {}
  times = h.get("time", []) or []
  temp = h.get("temperature_2m", []) or []
  ...
  keep = min(24, len(times))
  for i in range(keep):
      hourly.append({...})
  \<close>
\<close>

definition hourly_section :: "pyval \<Rightarrow> exn + hourly_row list" where
  "hourly_section raw =
     bind_exn (get_or raw ''hourly'' (PDict [])) (\<lambda>h.
     bind_exn (get_or h ''time'' (PList [])) (\<lambda>times'.
     bind_exn (get_or h ''temperature_2m'' (PList [])) (\<lambda>temp.
     bind_exn (get_or h ''apparent_temperature'' (PList [])) (\<lambda>feels.
     bind_exn (get_or h ''precipitation_probability'' (PList [])) (\<lambda>pop.
     bind_exn (get_or h ''wind_speed_10m'' (PList [])) (\<lambda>wind.
     bind_exn (get_or h ''wind_direction_10m'' (PList [])) (\<lambda>wdir.
     bind_exn (get_or h ''wind_gusts_10m'' (PList [])) (\<lambda>gust.
     bind_exn (get_or h ''weather_code'' (PList [])) (\<lambda>wcode.
     bind_exn (py_len times') (\<lambda>n.
       let keep = min 24 n
       in for_range (hourly_entry times' temp feels pop wind wdir gust wcode) 0 keep []))))))))))"

definition daily_entry :: "pyval \<Rightarrow> pyval \<Rightarrow> pyval \<Rightarrow> pyval \<Rightarrow> pyval \<Rightarrow> nat \<Rightarrow> exn + daily_row" where
  "daily_entry d_dates tmax tmin dpop dcode i =
     bind_exn (py_index d_dates i) (\<lambda>t.
     bind_exn (cell safe_float tmax i) (\<lambda>v1.
     bind_exn (cell safe_float tmin i) (\<lambda>v2.
     bind_exn (cell safe_int dcode i) (\<lambda>v3.
     bind_exn (cell safe_int dpop i) (\<lambda>v4.
       Inr \<lparr> date = t,
             tmax_c = v1,
             tmin_c = v2,
             daily_row.weather_code = v3,
             daily_row.precip_prob_pct = v4 \<rparr>)))))"

text \<open>
  \<^verbatim>\<open>
  daily = []
  d = raw.get("daily", {}) or {}
  d_dates = d.get("time", []) or []
  tmax = d.get("temperature_2m_max", []) or []
  tmin = d.get("temperature_2m_min", []) or []
  dpop = d.get("precipitation_probability_max", []) or []
  dcode = d.get("weather_code", []) or []
  for i in range(min(7, len(d_dates))):
      daily.append({...})
  \<close>
\<close>

definition daily_section :: "pyval \<Rightarrow> exn + daily_row list" where
  "daily_section raw =
     bind_exn (get_or raw ''daily'' (PDict [])) (\<lambda>d.
     bind_exn (get_or d ''time'' (PList [])) (\<lambda>d_dates.
     bind_exn (get_or d ''temperature_2m_max'' (PList [])) (\<lambda>tmax.
     bind_exn (get_or d ''temperature_2m_min'' (PList [])) (\<lambda>tmin.
     bind_exn (get_or d ''precipitation_probability_max'' (PList [])) (\<lambda>dpop.
     bind_exn (get_or d ''weather_code'' (PList [])) (\<lambda>dcode.
     bind_exn (py_len d_dates) (\<lambda>n.
       for_range (daily_entry d_dates tmax tmin dpop dcode) 0 (min 7 n) [])))))))"

text \<open>
  \<^verbatim>\<open>build_json(raw, place_name, lat, lon, tz)\<close>: the metadata (which reads the clock),
  then the three sections in the order of the source, then the document. The first
  argument of the model is the clock reading.
\<close>

definition build_json ::
  "datetime \<Rightarrow> pyval \<Rightarrow> pyval \<Rightarrow> pyval \<Rightarrow> pyval \<Rightarrow> pyval \<Rightarrow> exn + document" where
  "build_json utcnow raw place_name' lat' lon' tz =
     (let meta' = \<lparr> place_name = place_name', lat = lat', lon = lon', timezone = tz,
                    source = ''open-meteo'', generated_utc = now_utc_iso utcnow \<rparr>
      in bind_exn (current_section raw) (\<lambda>current'.
         bind_exn (hourly_section raw) (\<lambda>hourly'.
         bind_exn (daily_section raw) (\<lambda>daily'.
           Inr \<lparr> meta = meta', current = current', hourly = hourly', daily = daily' \<rparr>))))"

section \<open>The fetcher\<close>

text \<open>
  \<^verbatim>\<open>requests.get\<close> either raises (no connection, timeout) or returns a response; which
  one is the environment's choice, a function of the request. \<^verbatim>\<open>raise_for_status\<close>
  raises \<^verbatim>\<open>HTTPError\<close> for a status from 400 to 599, and \<^verbatim>\<open>r.json()\<close> returns the parsed
  body or raises when the body is not JSON.
\<close>

record request =
  req_url :: string
  params :: "(string \<times> pyval) list"
  timeout :: nat

record response =
  status_code :: nat
  reason :: string
  url :: string
  json :: "exn + pyval"

datatype http_outcome = Raises exn | Returns response

fun join :: "string \<Rightarrow> string list \<Rightarrow> string" where
  "join sep [] = []"
| "join sep [x] = x"
| "join sep (x # y # ys) = x @ sep @ join sep (y # ys)"

definition raise_for_status :: "response \<Rightarrow> exn + unit" where
  "raise_for_status r =
     (if 400 \<le> status_code r \<and> status_code r < 500
      then Inl (Exn HTTPError
                 (dec (status_code r) @ '' Client Error: '' @ reason r @ '' for url: '' @ url r))
      else if 500 \<le> status_code r \<and> status_code r < 600
      then Inl (Exn HTTPError
                 (dec (status_code r) @ '' Server Error: '' @ reason r @ '' for url: '' @ url r))
      else Inr ())"

definition fetch_open_meteo ::
  "(request \<Rightarrow> http_outcome) \<Rightarrow> pyval \<Rightarrow> pyval \<Rightarrow> pyval \<Rightarrow> exn + pyval" where
  "fetch_open_meteo get lat' lon' tz =
     (let params' =
            [(''latitude'', lat'),
             (''longitude'', lon'),
             (''timezone'', tz),
             (''current'', PStr (join '','' [''temperature_2m'', ''apparent_temperature'',
                ''relative_humidity_2m'', ''wind_speed_10m'', ''wind_direction_10m'',
                ''wind_gusts_10m'', ''weather_code''])),
             (''hourly'', PStr (join '','' [''temperature_2m'', ''apparent_temperature'',
                ''precipitation_probability'', ''wind_speed_10m'', ''wind_direction_10m'',
                ''wind_gusts_10m'', ''weather_code''])),
             (''daily'', PStr (join '','' [''temperature_2m_max'', ''temperature_2m_min'',
                ''precipitation_probability_max'', ''weather_code''])),
             (''forecast_days'', PInt 7)]
      in case get \<lparr> req_url = ''https://api.open-meteo.com/v1/forecast'',
                      params = params', timeout = 25 \<rparr> of
           Raises e \<Rightarrow> Inl e
         | Returns r \<Rightarrow> bind_exn (raise_for_status r) (\<lambda>u. json r))"

section \<open>\<^verbatim>\<open>main\<close>\<close>

definition PLACE_NAME :: pyval where
  "PLACE_NAME = PStr ''Monticello, AR''"

definition LAT :: pyval where
  "LAT = PFloat (round_to_double (336289 / 10000))"

definition LON :: pyval where
  "LON = PFloat (round_to_double (- (917909 / 10000)))"

definition TIMEZONE :: pyval where
  "TIMEZONE = PStr ''America/Chicago''"

definition OUTFILE :: string where
  "OUTFILE = ''weather.json''"

text \<open>
  What a file holds: some text, the text that
  \<^verbatim>\<open>json.dump(out, f, ensure_ascii=False, indent=2)\<close> writes for a document, or the
  beginning of that text when the dump stopped part-way.
\<close>

datatype file_content = Text string | Dump document | Partial_dump document

record world =
  files :: "string \<Rightarrow> file_content option"
  stdout :: "string list"
  stderr :: "string list"

text \<open>
  What happens to \<^verbatim>\<open>open(OUTFILE, "w")\<close> and the dump is the environment's choice:
  \<^verbatim>\<open>open\<close> raises and nothing is touched, the dump or the closing of the file raises
  after the file was truncated, or everything is written.
\<close>

datatype disk_outcome = Open_raises exn | Dump_raises exn | Completes

text \<open>
  \<^verbatim>\<open>print(f"Wrote {OUTFILE}")\<close> stands inside the \<^verbatim>\<open>try\<close>: whether the write to the
  standard output raises is the environment's choice too.
\<close>

datatype print_outcome = Print_raises exn | Prints

record env =
  http :: "request \<Rightarrow> http_outcome"
  clock :: datetime
  disk :: disk_outcome
  console :: print_outcome

definition write_outfile :: "disk_outcome \<Rightarrow> document \<Rightarrow> world \<Rightarrow> (exn + unit) \<times> world" where
  "write_outfile d out w =
     (case d of
        Open_raises e \<Rightarrow> (Inl e, w)
      | Dump_raises e \<Rightarrow> (Inl e, w\<lparr>files := (files w)(OUTFILE \<mapsto> Partial_dump out)\<rparr>)
      | Completes \<Rightarrow> (Inr (), w\<lparr>files := (files w)(OUTFILE \<mapsto> Dump out)\<rparr>))"

text \<open>
  \<^verbatim>\<open>
  except Exception as e:
      print(f"ERROR: {e}", file=sys.stderr)
      sys.exit(1)
  \<close>
\<close>

definition on_exception :: "exn \<Rightarrow> world \<Rightarrow> nat \<times> world" where
  "on_exception e w = (1, w\<lparr>stderr := stderr w @ [''ERROR: '' @ message e]\<rparr>)"

text \<open>
  \<^verbatim>\<open>
  def main():
      try:
          raw = fetch_open_meteo(LAT, LON, TIMEZONE)
          out = build_json(raw, PLACE_NAME, LAT, LON, TIMEZONE)
          with open(OUTFILE, "w", encoding="utf-8") as f:
              json.dump(out, f, ensure_ascii=False, indent=2)
          print(f"Wrote {OUTFILE}")
      except Exception as e: ...
  \<close>
  The result is the exit status of the process and the world it leaves; a run that
  reaches the end of \<^verbatim>\<open>main\<close> exits with status 0. An exception of the last
  \<^verbatim>\<open>print\<close> is caught like any other, with the file already written.
\<close>

definition main :: "env \<Rightarrow> world \<Rightarrow> nat \<times> world" where
  "main env w =
     (case fetch_open_meteo (http env) LAT LON TIMEZONE of
        Inl e \<Rightarrow> on_exception e w
      | Inr raw \<Rightarrow>
          (case build_json (clock env) raw PLACE_NAME LAT LON TIMEZONE of
             Inl e \<Rightarrow> on_exception e w
           | Inr out \<Rightarrow>
               (case write_outfile (disk env) out w of
                  (Inl e, w') \<Rightarrow> on_exception e w'
                | (Inr u, w') \<Rightarrow>
                    (case console env of
                       Print_raises e \<Rightarrow> on_exception e w'
                     | Prints \<Rightarrow> (0, w'\<lparr>stdout := stdout w' @ [''Wrote '' @ OUTFILE]\<rparr>)))))"

section \<open>Vocabulary of the properties\<close>

text \<open>
  The data model of the raw response: a dictionary whose sections are dictionaries and
  whose hourly and daily fields are sequences; a section or a field may be absent or
  hold a false value such as \<^verbatim>\<open>None\<close>, in which case the source puts the default in its
  place. On a dictionary, \<open>dict_get obj k d\<close> is the value of \<^verbatim>\<open>obj.get(k, d)\<close> and
  \<open>field_of obj k d\<close> that of \<^verbatim>\<open>obj.get(k, d) or d\<close>.
\<close>

fun is_dict :: "pyval \<Rightarrow> bool" where
  "is_dict (PDict kvs) = True"
| "is_dict v = False"

fun is_seq :: "pyval \<Rightarrow> bool" where
  "is_seq (PList xs) = True"
| "is_seq (PStr s) = True"
| "is_seq v = False"

text \<open>The elements of a sequence; the elements of a string are its one-character strings.\<close>

fun items :: "pyval \<Rightarrow> pyval list" where
  "items (PList xs) = xs"
| "items (PStr s) = map (\<lambda>c. PStr [c]) s"
| "items v = []"

definition dict_get :: "pyval \<Rightarrow> string \<Rightarrow> pyval \<Rightarrow> pyval" where
  "dict_get obj k d =
     (case obj of
        PDict kvs \<Rightarrow> (case map_of kvs k of Some v \<Rightarrow> v | None \<Rightarrow> d)
      | _ \<Rightarrow> d)"

definition field_of :: "pyval \<Rightarrow> string \<Rightarrow> pyval \<Rightarrow> pyval" where
  "field_of obj k d = py_or (dict_get obj k d) d"

definition hourly_keys :: "string list" where
  "hourly_keys = [''time'', ''temperature_2m'', ''apparent_temperature'',
     ''precipitation_probability'', ''wind_speed_10m'', ''wind_direction_10m'',
     ''wind_gusts_10m'', ''weather_code'']"

definition daily_keys :: "string list" where
  "daily_keys = [''time'', ''temperature_2m_max'', ''temperature_2m_min'',
     ''precipitation_probability_max'', ''weather_code'']"

definition wf_section :: "pyval \<Rightarrow> string list \<Rightarrow> bool" where
  "wf_section s ks = (is_dict s \<and> list_all (\<lambda>k. is_seq (field_of s k (PList []))) ks)"

definition wf_raw :: "pyval \<Rightarrow> bool" where
  "wf_raw raw =
     (is_dict raw \<and>
      is_dict (field_of raw ''current'' (PDict [])) \<and>
      wf_section (field_of raw ''hourly'' (PDict [])) hourly_keys \<and>
      wf_section (field_of raw ''daily'' (PDict [])) daily_keys)"

text \<open>A section is missing when its key is absent or holds a false value.\<close>

definition missing :: "pyval \<Rightarrow> string \<Rightarrow> bool" where
  "missing raw k =
     (case raw of
        PDict kvs \<Rightarrow> (case map_of kvs k of None \<Rightarrow> True | Some v \<Rightarrow> \<not> truthy v)
      | _ \<Rightarrow> False)"

text \<open>The value expected at position \<open>i\<close> of a measurement array: null beyond its end.\<close>

definition cell_of :: "(pyval \<Rightarrow> pyval) \<Rightarrow> pyval \<Rightarrow> nat \<Rightarrow> pyval" where
  "cell_of conv arr i = (if i < length (items arr) then conv (items arr ! i) else PNone)"

definition expected_current :: "pyval \<Rightarrow> current" where
  "expected_current cur =
     \<lparr> current.temperature_c = safe_float (dict_get cur ''temperature_2m'' PNone),
       current.feels_like_c = safe_float (dict_get cur ''apparent_temperature'' PNone),
       current.humidity_pct = safe_int (dict_get cur ''relative_humidity_2m'' PNone),
       current.wind_speed_kmh = safe_float (dict_get cur ''wind_speed_10m'' PNone),
       current.wind_dir_deg = safe_int (dict_get cur ''wind_direction_10m'' PNone),
       current.wind_gust_kmh = safe_float (dict_get cur ''wind_gusts_10m'' PNone),
       current.weather_code = safe_int (dict_get cur ''weather_code'' PNone) \<rparr>"

definition expected_hourly_row :: "pyval \<Rightarrow> nat \<Rightarrow> hourly_row" where
  "expected_hourly_row h i =
     \<lparr> time = items (field_of h ''time'' (PList [])) ! i,
       hourly_row.temperature_c = cell_of safe_float (field_of h ''temperature_2m'' (PList [])) i,
       hourly_row.feels_like_c = cell_of safe_float (field_of h ''apparent_temperature'' (PList [])) i,
       hourly_row.precip_prob_pct = cell_of safe_int (field_of h ''precipitation_probability'' (PList [])) i,
       hourly_row.wind_speed_kmh = cell_of safe_float (field_of h ''wind_speed_10m'' (PList [])) i,
       hourly_row.wind_dir_deg = cell_of safe_int (field_of h ''wind_direction_10m'' (PList [])) i,
       hourly_row.wind_gust_kmh = cell_of safe_float (field_of h ''wind_gusts_10m'' (PList [])) i,
       hourly_row.weather_code = cell_of safe_int (field_of h ''weather_code'' (PList [])) i \<rparr>"

definition expected_daily_row :: "pyval \<Rightarrow> nat \<Rightarrow> daily_row" where
  "expected_daily_row d i =
     \<lparr> date = items (field_of d ''time'' (PList [])) ! i,
       tmax_c = cell_of safe_float (field_of d ''temperature_2m_max'' (PList [])) i,
       tmin_c = cell_of safe_float (field_of d ''temperature_2m_min'' (PList [])) i,
       daily_row.weather_code = cell_of safe_int (field_of d ''weather_code'' (PList [])) i,
       daily_row.precip_prob_pct = cell_of safe_int (field_of d ''precipitation_probability_max'' (PList [])) i \<rparr>"

text \<open>
  A float of any value (finite, NaN or an infinity) or null; an integer or null; and a
  finite number or null.
\<close>

fun float_or_null :: "pyval \<Rightarrow> bool" where
  "float_or_null (PFloat f) = True"
| "float_or_null PNone = True"
| "float_or_null v = False"

fun int_or_null :: "pyval \<Rightarrow> bool" where
  "int_or_null (PInt n) = True"
| "int_or_null PNone = True"
| "int_or_null v = False"

fun finite_or_null :: "pyval \<Rightarrow> bool" where
  "finite_or_null (PFloat (Finite q)) = True"
| "finite_or_null (PInt n) = True"
| "finite_or_null PNone = True"
| "finite_or_null v = False"

text \<open>Rounding to the nearest integer with a tie going away from zero.\<close>

definition round_half_away :: "rat \<Rightarrow> int" where
  "round_half_away q = (if 0 \<le> q then \<lfloor>q + 1 / 2\<rfloor> else - \<lfloor>- q + 1 / 2\<rfloor>)"

section \<open>Sample inputs\<close>

text \<open>
  A raw response with three hourly time stamps, a temperature array of two entries (the
  second null), a one-entry precipitation array given as a string, and no other hourly
  field; one day; and a current section with a float, an integer and a numeric string.
\<close>

definition sample_raw :: pyval where
  "sample_raw =
     PDict
      [(''current'',
          PDict [(''temperature_2m'', PFloat (Finite (43 / 2))),
                 (''relative_humidity_2m'', PInt 58),
                 (''weather_code'', PStr ''3'')]),
       (''hourly'',
          PDict [(''time'', PList [PStr ''2026-01-28T17:00'', PStr ''2026-01-28T18:00'',
                                   PStr ''2026-01-28T19:00'']),
                 (''temperature_2m'', PList [PFloat (Finite (43 / 2)), PNone]),
                 (''precipitation_probability'', PList [PStr ''40''])]),
       (''daily'',
          PDict [(''time'', PList [PStr ''2026-01-28'']),
                 (''temperature_2m_max'', PList [PInt 25]),
                 (''weather_code'', PNone)])]"

text \<open>A raw response with a null current section, an empty hourly one and no daily one.\<close>

definition bare_raw :: pyval where
  "bare_raw = PDict [(''current'', PNone), (''hourly'', PDict []), (''latitude'', PInt 33)]"

definition sample_clock :: datetime where
  "sample_clock = \<lparr> year = 2026, month = 1, day = 28, hour = 17, minute = 5, second = 9,
                      microsecond = 0 \<rparr>"

definition later_clock :: datetime where
  "later_clock = sample_clock \<lparr> second := 10 \<rparr>"

text \<open>A raw response with 30 hourly and 9 daily time stamps and no measurements.\<close>

definition long_raw :: pyval where
  "long_raw =
     PDict [(''hourly'', PDict [(''time'', PList (replicate 30 (PStr ''2026-01-28T17:00'')))]),
            (''daily'', PDict [(''time'', PList (replicate 9 (PStr ''2026-01-28'')))])]"

text \<open>A raw response whose current section holds numeric strings.\<close>

definition string_raw :: pyval where
  "string_raw =
     PDict [(''current'', PDict [(''temperature_2m'', PStr ''21.3''),
                                 (''relative_humidity_2m'', PStr ''58'')])]"

text \<open>A server that answers every request with status 500, and one that answers 200.\<close>

definition failing_env :: env where
  "failing_env =
     \<lparr> http = (\<lambda>rq. Returns \<lparr> status_code = 500, reason = ''Internal Server Error'',
                                 url = req_url rq, json = Inr PNone \<rparr>),
       clock = sample_clock,
       disk = Completes,
       console = Prints \<rparr>"

definition working_env :: env where
  "working_env =
     \<lparr> http = (\<lambda>rq. Returns \<lparr> status_code = 200, reason = ''OK'',
                                 url = req_url rq, json = Inr sample_raw \<rparr>),
       clock = sample_clock,
       disk = Completes,
       console = Prints \<rparr>"

text \<open>The document that \<open>build_json\<close> returns for the sample response at the sample clock.\<close>

definition sample_doc :: document where
  "sample_doc =
     \<lparr> meta = \<lparr> place_name = PLACE_NAME, lat = LAT, lon = LON, timezone = TIMEZONE,
                     source = ''open-meteo'', generated_utc = now_utc_iso sample_clock \<rparr>,
       current = expected_current (field_of sample_raw ''current'' (PDict [])),
       hourly = map (expected_hourly_row (field_of sample_raw ''hourly'' (PDict [])))
         [0..<min 24 (length (items (field_of (field_of sample_raw ''hourly'' (PDict [])) ''time'' (PList []))))],
       daily = map (expected_daily_row (field_of sample_raw ''daily'' (PDict [])))
         [0..<min 7 (length (items (field_of (field_of sample_raw ''daily'' (PDict [])) ''time'' (PList []))))] \<rparr>"

text \<open>The server that answers 200, with a standard output that cannot be written to.\<close>

definition mute_env :: env where
  "mute_env = working_env \<lparr> console := Print_raises (Exn OSError ''[Errno 5] Input/output error'') \<rparr>"

text \<open>A raw response whose current temperature is the string \<^verbatim>\<open>"nan"\<close>, and its document.\<close>

definition nan_raw :: pyval where
  "nan_raw = PDict [(''current'', PDict [(''temperature_2m'', PStr ''nan'')])]"

definition nan_doc :: document where
  "nan_doc =
     \<lparr> meta = \<lparr> place_name = PLACE_NAME, lat = LAT, lon = LON, timezone = TIMEZONE,
                     source = ''open-meteo'', generated_utc = now_utc_iso sample_clock \<rparr>,
       current = \<lparr> current.temperature_c = PFloat NaN, current.feels_like_c = PNone,
                   current.humidity_pct = PNone, current.wind_speed_kmh = PNone,
                   current.wind_dir_deg = PNone, current.wind_gust_kmh = PNone,
                   current.weather_code = PNone \<rparr>,
       hourly = [],
       daily = [] \<rparr>"

definition empty_world :: world where
  "empty_world = \<lparr> files = (\<lambda>name. None), stdout = [], stderr = [] \<rparr>"

section \<open>Auxiliary facts\<close>

subsection \<open>Dictionaries, sequences and the loop\<close>

lemma bind_exn_Inr [simp]: "bind_exn (Inr x) f = f x"
  by (simp add: bind_exn_def)

lemma bind_exn_Inl [simp]: "bind_exn (Inl e) f = Inl e"
  by (simp add: bind_exn_def)

lemma py_get_dict: "is_dict obj \<Longrightarrow> py_get obj k d = Inr (dict_get obj k d)"
  by (cases obj) (simp_all add: py_get_def dict_get_def)

lemma get_or_dict: "is_dict obj \<Longrightarrow> get_or obj k d = Inr (field_of obj k d)"
  by (simp add: get_or_def field_of_def py_get_dict)

lemma py_len_seq: "is_seq v \<Longrightarrow> py_len v = Inr (length (items v))"
  by (cases v) (simp_all add: py_len_def)

lemma py_index_seq: "is_seq v \<Longrightarrow> i < length (items v) \<Longrightarrow> py_index v i = Inr (items v ! i)"
  by (cases v) (simp_all add: py_index_def)

lemma cell_seq: "is_seq arr \<Longrightarrow> cell conv arr i = Inr (cell_of conv arr i)"
  by (simp add: cell_def cell_of_def py_len_seq py_index_seq)

lemma for_range_map:
  "(\<And>j. i \<le> j \<Longrightarrow> j < keep \<Longrightarrow> row j = Inr (g j)) \<Longrightarrow>
   for_range row i keep rows = Inr (rows @ map g [i..<keep])"
proof (induction row i keep rows rule: for_range.induct)
  case (1 row i keep rows)
  show ?case
  proof (cases "i < keep")
    case True
    then have r: "row i = Inr (g i)" using "1.prems" by simp
    have "for_range row (Suc i) keep (rows @ [g i]) = Inr ((rows @ [g i]) @ map g [Suc i..<keep])"
      using True r "1.prems" by (intro "1.IH") simp_all
    then show ?thesis
      using True r by (subst for_range.simps) (simp add: upt_conv_Cons)
  next
    case False
    then show ?thesis by (subst for_range.simps) simp
  qed
qed

lemma current_section_ok:
  assumes "is_dict raw" "is_dict (field_of raw ''current'' (PDict []))"
  shows "current_section raw = Inr (expected_current (field_of raw ''current'' (PDict [])))"
  using assms by (simp add: current_section_def get_or_dict py_get_dict expected_current_def)

lemma hourly_entry_ok:
  assumes "is_seq ts" "i < length (items ts)"
    and "is_seq a1" "is_seq a2" "is_seq a3" "is_seq a4" "is_seq a5" "is_seq a6" "is_seq a7"
  shows "hourly_entry ts a1 a2 a3 a4 a5 a6 a7 i =
     Inr \<lparr> time = items ts ! i,
           hourly_row.temperature_c = cell_of safe_float a1 i,
           hourly_row.feels_like_c = cell_of safe_float a2 i,
           hourly_row.precip_prob_pct = cell_of safe_int a3 i,
           hourly_row.wind_speed_kmh = cell_of safe_float a4 i,
           hourly_row.wind_dir_deg = cell_of safe_int a5 i,
           hourly_row.wind_gust_kmh = cell_of safe_float a6 i,
           hourly_row.weather_code = cell_of safe_int a7 i \<rparr>"
  using assms by (simp add: hourly_entry_def cell_seq py_index_seq)

lemma hourly_section_ok:
  assumes "is_dict raw" "wf_section (field_of raw ''hourly'' (PDict [])) hourly_keys"
  shows "hourly_section raw =
     Inr (map (expected_hourly_row (field_of raw ''hourly'' (PDict [])))
            [0..<min 24 (length (items (field_of (field_of raw ''hourly'' (PDict [])) ''time'' (PList []))))])"
proof -
  define h where "h = field_of raw ''hourly'' (PDict [])"
  have d: "is_dict h" and s: "\<And>k. k \<in> set hourly_keys \<Longrightarrow> is_seq (field_of h k (PList []))"
    using assms(2) by (simp_all add: wf_section_def h_def list_all_iff)
  have k: "is_seq (field_of h ''time'' (PList []))"
    "is_seq (field_of h ''temperature_2m'' (PList []))"
    "is_seq (field_of h ''apparent_temperature'' (PList []))"
    "is_seq (field_of h ''precipitation_probability'' (PList []))"
    "is_seq (field_of h ''wind_speed_10m'' (PList []))"
    "is_seq (field_of h ''wind_direction_10m'' (PList []))"
    "is_seq (field_of h ''wind_gusts_10m'' (PList []))"
    "is_seq (field_of h ''weather_code'' (PList []))"
    by (rule s, simp add: hourly_keys_def)+
  have "hourly_section raw =
      for_range (hourly_entry (field_of h ''time'' (PList [])) (field_of h ''temperature_2m'' (PList []))
        (field_of h ''apparent_temperature'' (PList [])) (field_of h ''precipitation_probability'' (PList []))
        (field_of h ''wind_speed_10m'' (PList [])) (field_of h ''wind_direction_10m'' (PList []))
        (field_of h ''wind_gusts_10m'' (PList [])) (field_of h ''weather_code'' (PList [])))
        0 (min 24 (length (items (field_of h ''time'' (PList []))))) []"
    using assms(1) d k(1)
    by (simp add: hourly_section_def get_or_dict py_len_seq h_def [symmetric] Let_def)
  also have "\<dots> = Inr ([] @ map (expected_hourly_row h) [0..<min 24 (length (items (field_of h ''time'' (PList []))))])"
    by (rule for_range_map) (simp add: hourly_entry_ok k expected_hourly_row_def)
  finally show ?thesis by (simp add: h_def)
qed

lemma daily_entry_ok:
  assumes "is_seq ts" "i < length (items ts)"
    and "is_seq a1" "is_seq a2" "is_seq a3" "is_seq a4"
  shows "daily_entry ts a1 a2 a3 a4 i =
     Inr \<lparr> date = items ts ! i,
           tmax_c = cell_of safe_float a1 i,
           tmin_c = cell_of safe_float a2 i,
           daily_row.weather_code = cell_of safe_int a4 i,
           daily_row.precip_prob_pct = cell_of safe_int a3 i \<rparr>"
  using assms by (simp add: daily_entry_def cell_seq py_index_seq)

lemma daily_section_ok:
  assumes "is_dict raw" "wf_section (field_of raw ''daily'' (PDict [])) daily_keys"
  shows "daily_section raw =
     Inr (map (expected_daily_row (field_of raw ''daily'' (PDict [])))
            [0..<min 7 (length (items (field_of (field_of raw ''daily'' (PDict [])) ''time'' (PList []))))])"
proof -
  define d where "d = field_of raw ''daily'' (PDict [])"
  have dd: "is_dict d" and s: "\<And>k. k \<in> set daily_keys \<Longrightarrow> is_seq (field_of d k (PList []))"
    using assms(2) by (simp_all add: wf_section_def d_def list_all_iff)
  have k: "is_seq (field_of d ''time'' (PList []))"
    "is_seq (field_of d ''temperature_2m_max'' (PList []))"
    "is_seq (field_of d ''temperature_2m_min'' (PList []))"
    "is_seq (field_of d ''precipitation_probability_max'' (PList []))"
    "is_seq (field_of d ''weather_code'' (PList []))"
    by (rule s, simp add: daily_keys_def)+
  have "daily_section raw =
      for_range (daily_entry (field_of d ''time'' (PList [])) (field_of d ''temperature_2m_max'' (PList []))
        (field_of d ''temperature_2m_min'' (PList [])) (field_of d ''precipitation_probability_max'' (PList []))
        (field_of d ''weather_code'' (PList [])))
        0 (min 7 (length (items (field_of d ''time'' (PList []))))) []"
    using assms(1) dd k(1)
    by (simp add: daily_section_def get_or_dict py_len_seq d_def [symmetric])
  also have "\<dots> = Inr ([] @ map (expected_daily_row d) [0..<min 7 (length (items (field_of d ''time'' (PList []))))])"
    by (rule for_range_map) (simp add: daily_entry_ok k expected_daily_row_def)
  finally show ?thesis by (simp add: d_def)
qed

text \<open>The document that \<open>build_json\<close> returns on a well-formed raw response.\<close>

lemma build_json_ok:
  assumes "wf_raw raw"
  shows "build_json t raw p la lo tz =
     Inr \<lparr> meta = \<lparr> place_name = p, lat = la, lon = lo, timezone = tz,
                     source = ''open-meteo'', generated_utc = now_utc_iso t \<rparr>,
           current = expected_current (field_of raw ''current'' (PDict [])),
           hourly = map (expected_hourly_row (field_of raw ''hourly'' (PDict [])))
             [0..<min 24 (length (items (field_of (field_of raw ''hourly'' (PDict [])) ''time'' (PList []))))],
           daily = map (expected_daily_row (field_of raw ''daily'' (PDict [])))
             [0..<min 7 (length (items (field_of (field_of raw ''daily'' (PDict [])) ''time'' (PList []))))] \<rparr>"
  using assms
  by (simp add: build_json_def wf_raw_def current_section_ok hourly_section_ok daily_section_ok)

lemma safe_float_type: "float_or_null (safe_float x)"
  by (simp add: safe_float_def split: sum.split)

lemma safe_int_type: "int_or_null (safe_int x)"
  by (simp add: safe_int_def split: sum.split)

lemma cell_types:
  "cell safe_float arr i = Inr v \<Longrightarrow> float_or_null v"
  "cell safe_int arr i = Inr v \<Longrightarrow> int_or_null v"
  by (auto simp: cell_def bind_exn_def safe_float_type safe_int_type split: sum.splits if_splits)

subsection \<open>Binary64 rounding of small integers\<close>

lemma pow2_powi: "pow2 e = 2 powi e"
  by (simp add: pow2_def power_int_def power_inverse [symmetric] inverse_eq_divide power_one_over)

lemma pow2_pos: "0 < pow2 e"
  by (simp add: pow2_powi)

lemma pow2_mono: "a \<le> b \<Longrightarrow> pow2 a \<le> pow2 b"
  by (simp add: pow2_powi power_int_increasing)

lemma pow2_diff: "pow2 (a - b) = pow2 a / pow2 b"
  by (simp add: pow2_powi power_int_diff)

lemma pow2_nat: "0 \<le> e \<Longrightarrow> pow2 e = 2 ^ nat e"
  by (simp add: pow2_def)

lemma round_half_even_of_int: "round_half_even (of_int k) = k"
  by (simp add: round_half_even_def)

lemma ilog2_bounds:
  assumes "0 < a"
  shows "pow2 (ilog2 a) \<le> a" and "a < pow2 (ilog2 a + 1)"
proof -
  obtain p q where pq: "quotient_of a = (p, q)" by (cases "quotient_of a")
  have q: "0 < q" using pq by (rule quotient_of_denom_pos)
  have a: "a = of_int p / of_int q" using pq by (rule quotient_of_div)
  have p: "0 < p" using assms q a by (simp add: zero_less_divide_iff)
  define d where "d = bitlen p - bitlen q"
  have bp: "2 ^ nat (bitlen p - 1) \<le> p" "p < 2 ^ nat (bitlen p)"
    using bitlen_bounds [OF p] by simp_all
  have bq: "2 ^ nat (bitlen q - 1) \<le> q" "q < 2 ^ nat (bitlen q)"
    using bitlen_bounds [OF q] by simp_all
  have p1: "1 \<le> bitlen p" and q1: "1 \<le> bitlen q"
    using p q bitlen_nonneg [of p] bitlen_nonneg [of q]
      bitlen_eq_zero_iff [of p] bitlen_eq_zero_iff [of q] by linarith+
  have rp: "pow2 (bitlen p - 1) \<le> of_int p" "of_int p < pow2 (bitlen p)"
  proof -
    have "(of_int (2 ^ nat (bitlen p - 1)) :: rat) \<le> of_int p" using bp(1) by (simp only: of_int_le_iff)
    then show "pow2 (bitlen p - 1) \<le> of_int p" using p1 by (simp add: pow2_nat)
    have "(of_int p :: rat) < of_int (2 ^ nat (bitlen p))" using bp(2) by (simp only: of_int_less_iff)
    then show "of_int p < pow2 (bitlen p)" using p1 by (simp add: pow2_nat)
  qed
  have rq: "pow2 (bitlen q - 1) \<le> of_int q" "of_int q < pow2 (bitlen q)"
  proof -
    have "(of_int (2 ^ nat (bitlen q - 1)) :: rat) \<le> of_int q" using bq(1) by (simp only: of_int_le_iff)
    then show "pow2 (bitlen q - 1) \<le> of_int q" using q1 by (simp add: pow2_nat)
    have "(of_int q :: rat) < of_int (2 ^ nat (bitlen q))" using bq(2) by (simp only: of_int_less_iff)
    then show "of_int q < pow2 (bitlen q)" using q1 by (simp add: pow2_nat)
  qed
  have qpos: "(0::rat) < of_int q" using q by simp
  have lo: "pow2 (d - 1) \<le> a"
  proof -
    have "pow2 (d - 1) = pow2 (bitlen p - 1) / pow2 (bitlen q)"
      by (simp add: d_def pow2_diff [symmetric] algebra_simps)
    also have "\<dots> \<le> of_int p / pow2 (bitlen q)"
      using rp(1) by (intro divide_right_mono) (simp_all add: pow2_pos less_imp_le)
    also have "\<dots> \<le> of_int p / of_int q"
      using rq(2) qpos p by (intro divide_left_mono) (simp_all add: pow2_pos)
    finally show ?thesis by (simp add: a)
  qed
  have hi: "a < pow2 (d + 1)"
  proof -
    have "a = of_int p / of_int q" by (rule a)
    also have "\<dots> < pow2 (bitlen p) / of_int q"
      using rp(2) qpos by (intro divide_strict_right_mono) simp_all
    also have "\<dots> \<le> pow2 (bitlen p) / pow2 (bitlen q - 1)"
      using rq(1) qpos by (intro divide_left_mono) (simp_all add: pow2_pos less_imp_le)
    also have "\<dots> = pow2 (d + 1)"
      by (simp add: d_def pow2_diff [symmetric] algebra_simps)
    finally show ?thesis .
  qed
  have e: "ilog2 a = (if pow2 d \<le> a then d else d - 1)"
    by (simp add: ilog2_def pq d_def Let_def)
  show "pow2 (ilog2 a) \<le> a" using lo by (simp add: e)
  show "a < pow2 (ilog2 a + 1)" using hi by (simp add: e)
qed

text \<open>An integer of at most 53 bits is a binary64 value.\<close>

lemma round_to_double_small_pos:
  assumes "1 \<le> k" "k \<le> 2 ^ 53"
  shows "of_int (round_half_even (of_int k / pow2 (max (ilog2 (of_int k) - 52) (- 1074)))) *
           pow2 (max (ilog2 (of_int k) - 52) (- 1074)) = (of_int k :: rat)"
proof -
  define a :: rat where "a = of_int k"
  define e where "e = ilog2 a"
  have apos: "0 < a" and a1: "1 \<le> a" and a53: "a \<le> 2 ^ 53"
    using assms by (simp_all add: a_def of_int_le_numeral_power_cancel_iff)
  have lo: "pow2 e \<le> a" and hi: "a < pow2 (e + 1)"
    using ilog2_bounds [OF apos] by (simp_all add: e_def)
  have e0: "0 \<le> e"
  proof (rule ccontr)
    assume "\<not> 0 \<le> e"
    then have "pow2 (e + 1) \<le> pow2 0" by (intro pow2_mono) simp
    then show False using hi a1 by (simp add: pow2_def)
  qed
  have e53: "e \<le> 53"
  proof (rule ccontr)
    assume "\<not> e \<le> 53"
    then have "pow2 54 \<le> pow2 e" by (intro pow2_mono) simp
    then show False using lo a53 by (simp add: pow2_def)
  qed
  define u where "u = max (e - 52) (- 1074)"
  have u: "u = e - 52" using e0 by (simp add: u_def)
  have "of_int (round_half_even (a / pow2 u)) * pow2 u = a"
  proof (cases "u \<le> 0")
    case True
    then have p: "pow2 u = 1 / 2 ^ nat (- u)"
      by (cases "u = 0") (simp_all add: pow2_def)
    have "a / pow2 u = of_int (k * 2 ^ nat (- u))"
      by (simp add: p a_def)
    then have "round_half_even (a / pow2 u) = k * 2 ^ nat (- u)"
      by (simp only: round_half_even_of_int)
    then show ?thesis
      by (simp add: p a_def)
  next
    case False
    then have e: "e = 53" using u e53 by simp
    then have "a = 2 ^ 53" using lo a53 by (simp add: pow2_def)
    then have k: "k = 2 ^ 53" by (simp add: a_def of_int_eq_numeral_power_cancel_iff)
    have u1: "u = 1" using e u by simp
    have "a / pow2 u = of_int (2 ^ 52)"
      by (simp add: u1 pow2_def \<open>a = 2 ^ 53\<close>)
    then have "round_half_even (a / pow2 u) = 2 ^ 52"
      by (simp only: round_half_even_of_int)
    then show ?thesis
      by (simp add: u1 pow2_def \<open>a = 2 ^ 53\<close>)
  qed
  then show ?thesis
    unfolding u_def e_def a_def .
qed

lemma round_to_double_int:
  assumes "\<bar>n\<bar> \<le> 2 ^ 53"
  shows "round_to_double (of_int n) = Finite (of_int n)"
proof (cases "n = 0")
  case True
  then show ?thesis by (simp add: round_to_double_def)
next
  case False
  define k where "k = \<bar>n\<bar>"
  have k: "1 \<le> k" "k \<le> 2 ^ 53" using False assms by (simp_all add: k_def)
  have abs: "\<bar>of_int n :: rat\<bar> = of_int k" by (simp add: k_def)
  have small: "(of_int k :: rat) < pow2 1024"
  proof -
    have "(of_int k :: rat) \<le> 2 ^ 53" using k(2) by (simp add: of_int_le_numeral_power_cancel_iff)
    also have "\<dots> < pow2 1024" by (simp add: pow2_def)
    finally show ?thesis .
  qed
  have nz: "(of_int n :: rat) \<noteq> 0" using False by simp
  have "round_to_double (of_int n) =
      Finite (if (of_int n :: rat) < 0 then - of_int k else of_int k)"
    using small
    by (simp only: round_to_double_def Let_def abs round_to_double_small_pos [OF k] nz
        if_False not_le [symmetric])
  also have "(if (of_int n :: rat) < 0 then - of_int k else of_int k) = (of_int n :: rat)"
    by (simp add: k_def)
  finally show ?thesis .
qed

lemma safe_float_int: "\<bar>n\<bar> \<le> 2 ^ 53 \<Longrightarrow> safe_float (PInt n) = PFloat (Finite (of_int n))"
  by (simp add: safe_float_def float_of_int_def round_to_double_int)

lemma safe_int_int: "\<bar>n\<bar> \<le> 2 ^ 53 \<Longrightarrow> safe_int (PInt n) = PInt n"
  by (simp add: safe_int_def float_of_int_def round_to_double_int round_half_even_of_int)

subsection \<open>Rounding to an integer and the safe conversions\<close>

lemma round_half_even_nearest: "\<bar>q - of_int (round_half_even q)\<bar> \<le> 1 / 2"
proof -
  have "of_int \<lfloor>q\<rfloor> \<le> q" "q < of_int \<lfloor>q\<rfloor> + 1" by linarith+
  then show ?thesis
    by (auto simp: round_half_even_def Let_def abs_le_iff)
qed

lemma round_half_even_tie:
  assumes "\<bar>q - of_int (round_half_even q)\<bar> = 1 / 2"
  shows "even (round_half_even q)"
proof -
  define d where "d = q - of_int \<lfloor>q\<rfloor>"
  have d: "0 \<le> d" "d < 1" unfolding d_def by linarith+
  consider "d < 1 / 2" | "1 / 2 < d" | "d = 1 / 2" by linarith
  then show ?thesis
  proof cases
    case 1
    then have "round_half_even q = \<lfloor>q\<rfloor>" by (simp add: round_half_even_def d_def)
    then have "\<bar>d\<bar> = 1 / 2" using assms by (simp add: d_def)
    then show ?thesis using 1 d by linarith
  next
    case 2
    then have "round_half_even q = \<lfloor>q\<rfloor> + 1" by (simp add: round_half_even_def d_def)
    then have "\<bar>d - 1\<bar> = 1 / 2" using assms by (simp add: d_def algebra_simps)
    then show ?thesis using 2 d by linarith
  next
    case 3
    then show ?thesis by (simp add: round_half_even_def d_def Let_def)
  qed
qed

lemma round_half_away_eq:
  assumes "q - of_int \<lfloor>q\<rfloor> \<noteq> 1 / 2"
  shows "round_half_even q = round_half_away q"
proof -
  have f: "of_int \<lfloor>q\<rfloor> \<le> q" "q < of_int \<lfloor>q\<rfloor> + 1" by linarith+
  consider "q - of_int \<lfloor>q\<rfloor> < 1 / 2" | "1 / 2 < q - of_int \<lfloor>q\<rfloor>"
    using assms by linarith
  then show ?thesis
  proof cases
    case 1
    have e: "round_half_even q = \<lfloor>q\<rfloor>" using 1 by (simp add: round_half_even_def)
    have "\<lfloor>q + 1 / 2\<rfloor> = \<lfloor>q\<rfloor>"
    proof (rule floor_unique)
      show "of_int \<lfloor>q\<rfloor> \<le> q + 1 / 2" using f by linarith
      show "q + 1 / 2 < of_int \<lfloor>q\<rfloor> + 1" using 1 by linarith
    qed
    moreover have "\<lfloor>- q + 1 / 2\<rfloor> = - \<lfloor>q\<rfloor>"
    proof (rule floor_unique)
      show "of_int (- \<lfloor>q\<rfloor>) \<le> - q + 1 / 2"
        using 1 unfolding of_int_minus by linarith
      show "- q + 1 / 2 < of_int (- \<lfloor>q\<rfloor>) + 1"
        using f unfolding of_int_minus by linarith
    qed
    ultimately show ?thesis by (simp add: e round_half_away_def)
  next
    case 2
    have e: "round_half_even q = \<lfloor>q\<rfloor> + 1" using 2 by (simp add: round_half_even_def)
    have "\<lfloor>q + 1 / 2\<rfloor> = \<lfloor>q\<rfloor> + 1"
    proof (rule floor_unique)
      show "of_int (\<lfloor>q\<rfloor> + 1) \<le> q + 1 / 2"
        using 2 unfolding of_int_add of_int_1 by linarith
      show "q + 1 / 2 < of_int (\<lfloor>q\<rfloor> + 1) + 1"
        using f unfolding of_int_add of_int_1 by linarith
    qed
    moreover have "\<lfloor>- q + 1 / 2\<rfloor> = - \<lfloor>q\<rfloor> - 1"
    proof (rule floor_unique)
      show "of_int (- \<lfloor>q\<rfloor> - 1) \<le> - q + 1 / 2"
        using f unfolding of_int_minus of_int_diff of_int_1 by linarith
      show "- q + 1 / 2 < of_int (- \<lfloor>q\<rfloor> - 1) + 1"
        using 2 unfolding of_int_minus of_int_diff of_int_1 by linarith
    qed
    ultimately show ?thesis by (simp add: e round_half_away_def)
  qed
qed

lemma safe_float_simps:
  "safe_float PNone = PNone"
  "safe_float (PFloat f) = PFloat f"
  "safe_float (PBool b) = PFloat (Finite (if b then 1 else 0))"
  "safe_float (PList xs) = PNone"
  "safe_float (PDict kvs) = PNone"
  "safe_float (PStr s) = (case float_of_str s of Some f \<Rightarrow> PFloat f | None \<Rightarrow> PNone)"
  by (simp_all add: safe_float_def split: option.split)

lemma safe_int_simps:
  "safe_int PNone = PNone"
  "safe_int (PFloat (Finite q)) = PInt (round_half_even q)"
  "safe_int (PFloat NaN) = PNone"
  "safe_int (PFloat PosInf) = PNone"
  "safe_int (PFloat NegInf) = PNone"
  "safe_int (PBool b) = PInt (if b then 1 else 0)"
  "safe_int (PList xs) = PNone"
  "safe_int (PDict kvs) = PNone"
  "safe_int (PStr s) = (case float_of_str s of Some f \<Rightarrow> safe_int (PFloat f) | None \<Rightarrow> PNone)"
  by (simp_all add: safe_int_def round_half_even_def split: option.split)

subsection \<open>What a returned document implies\<close>

lemma bind_exn_Inr_iff: "bind_exn m f = Inr y \<longleftrightarrow> (\<exists>x. m = Inr x \<and> f x = Inr y)"
  by (cases m) simp_all

lemma py_get_Inr: "py_get obj k d = Inr v \<Longrightarrow> is_dict obj \<and> v = dict_get obj k d"
  by (cases obj) (simp_all add: py_get_def dict_get_def)

lemma get_or_Inr: "get_or obj k d = Inr v \<Longrightarrow> is_dict obj \<and> v = field_of obj k d"
  by (auto simp: get_or_def field_of_def bind_exn_Inr_iff dest: py_get_Inr)

lemma for_range_length:
  "for_range row i keep rows = Inr out \<Longrightarrow> length out = length rows + (keep - i)"
proof (induction row i keep rows rule: for_range.induct)
  case (1 row i keep rows)
  show ?case
  proof (cases "i < keep")
    case True
    with "1.prems" obtain r where r: "row i = Inr r"
      and rest: "for_range row (Suc i) keep (rows @ [r]) = Inr out"
      by (subst (asm) for_range.simps) (auto split: sum.splits)
    from "1.IH" [OF True r rest] True show ?thesis by simp
  next
    case False
    with "1.prems" show ?thesis by (subst (asm) for_range.simps) simp
  qed
qed

lemma for_range_all:
  "for_range row i keep rows = Inr out \<Longrightarrow> \<forall>r \<in> set rows. P r \<Longrightarrow>
   \<forall>j r. row j = Inr r \<longrightarrow> P r \<Longrightarrow> \<forall>r \<in> set out. P r"
proof (induction row i keep rows rule: for_range.induct)
  case (1 row i keep rows)
  show ?case
  proof (cases "i < keep")
    case True
    with "1.prems"(1) obtain r where r: "row i = Inr r"
      and rest: "for_range row (Suc i) keep (rows @ [r]) = Inr out"
      by (subst (asm) for_range.simps) (auto split: sum.splits)
    have "\<forall>x \<in> set (rows @ [r]). P x" using "1.prems"(2,3) r by simp
    from "1.IH" [OF True r rest this "1.prems"(3)] show ?thesis .
  next
    case False
    with "1.prems" show ?thesis by (subst (asm) for_range.simps) simp
  qed
qed

lemma for_range_raises:
  "i < keep \<Longrightarrow> row i = Inl e \<Longrightarrow> for_range row i keep rows = Inl e"
  by (subst for_range.simps) simp


lemma hourly_entry_types:
  assumes "hourly_entry ts a1 a2 a3 a4 a5 a6 a7 i = Inr r"
  shows "float_or_null (hourly_row.temperature_c r) \<and>
         float_or_null (hourly_row.feels_like_c r) \<and>
         int_or_null (hourly_row.precip_prob_pct r) \<and>
         float_or_null (hourly_row.wind_speed_kmh r) \<and>
         int_or_null (hourly_row.wind_dir_deg r) \<and>
         float_or_null (hourly_row.wind_gust_kmh r) \<and>
         int_or_null (hourly_row.weather_code r)"
  using assms
  by (auto simp: hourly_entry_def bind_exn_Inr_iff dest: cell_types)

lemma daily_entry_types:
  assumes "daily_entry ts a1 a2 a3 a4 i = Inr r"
  shows "float_or_null (tmax_c r) \<and>
         float_or_null (tmin_c r) \<and>
         int_or_null (daily_row.weather_code r) \<and>
         int_or_null (daily_row.precip_prob_pct r)"
  using assms
  by (auto simp: daily_entry_def bind_exn_Inr_iff dest: cell_types)

lemma current_section_types:
  assumes "current_section raw = Inr c"
  shows "float_or_null (current.temperature_c c) \<and>
         float_or_null (current.feels_like_c c) \<and>
         int_or_null (current.humidity_pct c) \<and>
         float_or_null (current.wind_speed_kmh c) \<and>
         int_or_null (current.wind_dir_deg c) \<and>
         float_or_null (current.wind_gust_kmh c) \<and>
         int_or_null (current.weather_code c)"
  using assms
  by (auto simp: current_section_def bind_exn_Inr_iff safe_float_type safe_int_type)

lemma hourly_section_types:
  assumes "hourly_section raw = Inr hs" "r \<in> set hs"
  shows "float_or_null (hourly_row.temperature_c r) \<and>
         float_or_null (hourly_row.feels_like_c r) \<and>
         int_or_null (hourly_row.precip_prob_pct r) \<and>
         float_or_null (hourly_row.wind_speed_kmh r) \<and>
         int_or_null (hourly_row.wind_dir_deg r) \<and>
         float_or_null (hourly_row.wind_gust_kmh r) \<and>
         int_or_null (hourly_row.weather_code r)"
proof -
  from assms(1) obtain ts a1 a2 a3 a4 a5 a6 a7 n
    where "for_range (hourly_entry ts a1 a2 a3 a4 a5 a6 a7) 0 (min 24 n) [] = Inr hs"
    by (auto simp: hourly_section_def bind_exn_Inr_iff Let_def)
  then have "\<forall>r \<in> set hs. float_or_null (hourly_row.temperature_c r) \<and>
         float_or_null (hourly_row.feels_like_c r) \<and>
         int_or_null (hourly_row.precip_prob_pct r) \<and>
         float_or_null (hourly_row.wind_speed_kmh r) \<and>
         int_or_null (hourly_row.wind_dir_deg r) \<and>
         float_or_null (hourly_row.wind_gust_kmh r) \<and>
         int_or_null (hourly_row.weather_code r)"
    by (rule for_range_all) (simp, blast dest: hourly_entry_types)
  then show ?thesis using assms(2) by blast
qed

lemma daily_section_types:
  assumes "daily_section raw = Inr ds" "r \<in> set ds"
  shows "float_or_null (tmax_c r) \<and>
         float_or_null (tmin_c r) \<and>
         int_or_null (daily_row.weather_code r) \<and>
         int_or_null (daily_row.precip_prob_pct r)"
proof -
  from assms(1) obtain ts a1 a2 a3 a4 n
    where "for_range (daily_entry ts a1 a2 a3 a4) 0 (min 7 n) [] = Inr ds"
    by (auto simp: daily_section_def bind_exn_Inr_iff)
  then have "\<forall>r \<in> set ds. float_or_null (tmax_c r) \<and>
         float_or_null (tmin_c r) \<and>
         int_or_null (daily_row.weather_code r) \<and>
         int_or_null (daily_row.precip_prob_pct r)"
    by (rule for_range_all) (simp, blast dest: daily_entry_types)
  then show ?thesis using assms(2) by blast
qed

lemma build_json_Inr:
  assumes "build_json t raw p la lo tz = Inr doc"
  shows "current_section raw = Inr (current doc)"
    and "hourly_section raw = Inr (hourly doc)"
    and "daily_section raw = Inr (daily doc)"
    and "meta doc = \<lparr> place_name = p, lat = la, lon = lo, timezone = tz,
           source = ''open-meteo'', generated_utc = now_utc_iso t \<rparr>"
  using assms by (auto simp: build_json_def bind_exn_Inr_iff)

subsection \<open>Lengths and missing sections\<close>

lemma py_len_items:
  "py_len ts = Inr n \<Longrightarrow> n = length (items ts) \<or> (0 < n \<and> (\<exists>e. py_index ts 0 = Inl e))"
  by (cases ts) (auto simp: py_len_def py_index_def)

lemma hourly_section_length:
  assumes "hourly_section raw = Inr hs"
  shows "length hs =
     min 24 (length (items (field_of (field_of raw ''hourly'' (PDict [])) ''time'' (PList []))))"
proof -
  define ts where "ts = field_of (field_of raw ''hourly'' (PDict [])) ''time'' (PList [])"
  from assms obtain a1 a2 a3 a4 a5 a6 a7 n
    where n: "py_len ts = Inr n"
      and loop: "for_range (hourly_entry ts a1 a2 a3 a4 a5 a6 a7) 0 (min 24 n) [] = Inr hs"
    by (auto simp: hourly_section_def bind_exn_Inr_iff Let_def ts_def dest!: get_or_Inr)
  have len: "length hs = min 24 n" using for_range_length [OF loop] by simp
  from py_len_items [OF n] show ?thesis
  proof
    assume "n = length (items ts)"
    then show ?thesis using len by (simp add: ts_def)
  next
    assume "0 < n \<and> (\<exists>e. py_index ts 0 = Inl e)"
    then obtain e where "0 < min 24 n" "hourly_entry ts a1 a2 a3 a4 a5 a6 a7 0 = Inl e"
      by (auto simp: hourly_entry_def)
    then have "for_range (hourly_entry ts a1 a2 a3 a4 a5 a6 a7) 0 (min 24 n) [] = Inl e"
      by (rule for_range_raises)
    then show ?thesis using loop by simp
  qed
qed

lemma daily_section_length:
  assumes "daily_section raw = Inr ds"
  shows "length ds =
     min 7 (length (items (field_of (field_of raw ''daily'' (PDict [])) ''time'' (PList []))))"
proof -
  define ts where "ts = field_of (field_of raw ''daily'' (PDict [])) ''time'' (PList [])"
  from assms obtain a1 a2 a3 a4 n
    where n: "py_len ts = Inr n"
      and loop: "for_range (daily_entry ts a1 a2 a3 a4) 0 (min 7 n) [] = Inr ds"
    by (auto simp: daily_section_def bind_exn_Inr_iff ts_def dest!: get_or_Inr)
  have len: "length ds = min 7 n" using for_range_length [OF loop] by simp
  from py_len_items [OF n] show ?thesis
  proof
    assume "n = length (items ts)"
    then show ?thesis using len by (simp add: ts_def)
  next
    assume "0 < n \<and> (\<exists>e. py_index ts 0 = Inl e)"
    then obtain e where "0 < min 7 n" "daily_entry ts a1 a2 a3 a4 0 = Inl e"
      by (auto simp: daily_entry_def)
    then have "for_range (daily_entry ts a1 a2 a3 a4) 0 (min 7 n) [] = Inl e"
      by (rule for_range_raises)
    then show ?thesis using loop by simp
  qed
qed

text \<open>With an empty time array the loop body never runs, whatever the other fields hold.\<close>

lemma hourly_section_no_times:
  assumes "is_dict raw" "is_dict (field_of raw ''hourly'' (PDict []))"
    and "field_of (field_of raw ''hourly'' (PDict [])) ''time'' (PList []) = PList []"
  shows "hourly_section raw = Inr []"
  using assms
  by (simp add: hourly_section_def get_or_dict py_len_def for_range.simps)

lemma daily_section_no_times:
  assumes "is_dict raw" "is_dict (field_of raw ''daily'' (PDict []))"
    and "field_of (field_of raw ''daily'' (PDict [])) ''time'' (PList []) = PList []"
  shows "daily_section raw = Inr []"
  using assms
  by (simp add: daily_section_def get_or_dict py_len_def for_range.simps)

lemma missing_field_of: "missing raw k \<Longrightarrow> is_dict raw \<and> field_of raw k d = d"
  by (cases raw) (auto simp: missing_def field_of_def dict_get_def py_or_def split: option.splits)

lemma field_of_empty [simp]: "field_of (PDict []) k d = d"
  by (simp add: field_of_def dict_get_def py_or_def)

lemma dict_get_empty [simp]: "dict_get (PDict []) k d = d"
  by (simp add: dict_get_def)

subsection \<open>The sample inputs\<close>

lemma sample_raw_wf: "wf_raw sample_raw"
  by code_simp

lemma string_raw_wf: "wf_raw string_raw"
  by code_simp

lemma long_raw_wf: "wf_raw long_raw"
  by code_simp

lemma sample_clocks:
  "now_utc_iso sample_clock = ''2026-01-28T17:05:09+00:00''"
  "now_utc_iso later_clock = ''2026-01-28T17:05:10+00:00''"
  by code_simp+

subsection \<open>Facts used by the examples\<close>

lemma dec_500: "dec 500 = ''500''"
  by code_simp

lemma fetch_failing_env:
  "fetch_open_meteo (http failing_env) LAT LON TIMEZONE =
     Inl (Exn HTTPError
       ''500 Server Error: Internal Server Error for url: https://api.open-meteo.com/v1/forecast'')"
  by (simp add: fetch_open_meteo_def failing_env_def raise_for_status_def dec_500)

lemma fetch_working_env:
  "fetch_open_meteo (http (working_env \<lparr> disk := d \<rparr>)) LAT LON TIMEZONE = Inr sample_raw"
  by (simp add: fetch_open_meteo_def working_env_def raise_for_status_def)

lemma fetch_working_console:
  "fetch_open_meteo (http (working_env \<lparr> console := c \<rparr>)) LAT LON TIMEZONE = Inr sample_raw"
  by (simp add: fetch_open_meteo_def working_env_def raise_for_status_def)

lemma fetch_mute_env: "fetch_open_meteo (http mute_env) LAT LON TIMEZONE = Inr sample_raw"
  unfolding mute_env_def by (rule fetch_working_console)

lemma clock_mute_env: "clock mute_env = sample_clock"
  by (simp add: mute_env_def working_env_def)

lemma sample_doc_built:
  "build_json sample_clock sample_raw PLACE_NAME LAT LON TIMEZONE = Inr sample_doc"
  by (simp add: build_json_ok [OF sample_raw_wf] sample_doc_def)

lemma field_of_missing:
  "is_dict raw \<Longrightarrow>
   field_of raw k (PDict []) = (if missing raw k then PDict [] else dict_get raw k (PDict []))"
  by (cases raw) (auto simp: field_of_def dict_get_def missing_def py_or_def split: option.splits)

lemma wf_section_empty: "wf_section (PDict []) ks"
  by (simp add: wf_section_def list_all_iff)

lemma bare_raw_missing:
  "missing bare_raw ''current''" "missing bare_raw ''hourly''" "missing bare_raw ''daily''"
  by code_simp+

lemma sample_lengths:
  "length (items (field_of (field_of sample_raw ''hourly'' (PDict [])) ''time'' (PList []))) = 3"
  "length (items (field_of (field_of sample_raw ''daily'' (PDict [])) ''time'' (PList []))) = 1"
  "length (items (field_of (field_of sample_raw ''hourly'' (PDict [])) ''temperature_2m'' (PList []))) = 2"
  "length (items (field_of (field_of sample_raw ''daily'' (PDict [])) ''temperature_2m_min'' (PList []))) = 0"
  "length (items (field_of (field_of long_raw ''hourly'' (PDict [])) ''time'' (PList []))) = 30"
  "length (items (field_of (field_of long_raw ''daily'' (PDict [])) ''time'' (PList []))) = 9"
  by code_simp+

lemma bare_raw_fields:
  "is_dict (field_of bare_raw ''current'' (PDict []))"
  "is_dict (field_of bare_raw ''hourly'' (PDict []))"
  "is_dict (field_of bare_raw ''daily'' (PDict []))"
  "field_of (field_of bare_raw ''hourly'' (PDict [])) ''time'' (PList []) = PList []"
  "field_of (field_of bare_raw ''daily'' (PDict [])) ''time'' (PList []) = PList []"
  by code_simp+

section \<open>The claims\<close>

text \<open>
  In the statements below \<open>wf_raw raw\<close> says that the raw response has the shape of the
  data model: a dictionary in which each of the three sections is a dictionary, or is
  absent or false, and in which each hourly and daily field is a sequence, or is absent
  or false. Nothing is required of the lengths of the sequences or of their elements.
\<close>

subsection \<open>C1: the current section\<close>

text \<open>
  C1: for every raw response (a dictionary) whose \<^verbatim>\<open>current\<close> section is a dictionary
  (or absent or false, which the source replaces by the empty dictionary), the current
  section of \<open>build_json\<close> does not raise; each of its seven fields is \<open>safe_float\<close>
  or \<open>safe_int\<close> of the raw field (null when the field is absent); any document that
  \<open>build_json\<close> returns carries this record, and it returns one when the whole
  response is well formed. \<open>safe_float\<close> gives null on \<^verbatim>\<open>None\<close> and when \<^verbatim>\<open>float\<close>
  raises, and the float otherwise; \<open>safe_int\<close> gives null on \<^verbatim>\<open>None\<close> and when
  \<^verbatim>\<open>float\<close> or \<^verbatim>\<open>round\<close> raises, and otherwise an integer nearest to the float. A float
  is converted to itself, and an integer of magnitude at most \<open>2\<^sup>5\<^sup>3\<close> to the float and
  to the integer of the same value.
\<close>

theorem current_fields_converted:
  assumes "is_dict raw" and "is_dict (field_of raw ''current'' (PDict []))"
  shows "\<exists>c. current_section raw = Inr c \<and>
           (build_json t raw p la lo tz = Inr doc \<longrightarrow> current doc = c) \<and>
           (wf_raw raw \<longrightarrow> (\<exists>d. build_json t raw p la lo tz = Inr d)) \<and>
           current.temperature_c c =
             safe_float (dict_get (field_of raw ''current'' (PDict [])) ''temperature_2m'' PNone) \<and>
           current.feels_like_c c =
             safe_float (dict_get (field_of raw ''current'' (PDict [])) ''apparent_temperature'' PNone) \<and>
           current.humidity_pct c =
             safe_int (dict_get (field_of raw ''current'' (PDict [])) ''relative_humidity_2m'' PNone) \<and>
           current.wind_speed_kmh c =
             safe_float (dict_get (field_of raw ''current'' (PDict [])) ''wind_speed_10m'' PNone) \<and>
           current.wind_dir_deg c =
             safe_int (dict_get (field_of raw ''current'' (PDict [])) ''wind_direction_10m'' PNone) \<and>
           current.wind_gust_kmh c =
             safe_float (dict_get (field_of raw ''current'' (PDict [])) ''wind_gusts_10m'' PNone) \<and>
           current.weather_code c =
             safe_int (dict_get (field_of raw ''current'' (PDict [])) ''weather_code'' PNone) \<and>
           safe_float PNone = PNone \<and>
           (py_float x = Inl e \<longrightarrow> safe_float x = PNone) \<and>
           (x \<noteq> PNone \<and> py_float x = Inr f \<longrightarrow> safe_float x = PFloat f) \<and>
           safe_int PNone = PNone \<and>
           (py_float x = Inl e \<longrightarrow> safe_int x = PNone) \<and>
           (py_float x = Inr f \<and> py_round f = Inl e' \<longrightarrow> safe_int x = PNone) \<and>
           (x \<noteq> PNone \<and> py_float x = Inr (Finite q) \<longrightarrow>
              safe_int x = PInt (round_half_even q) \<and>
              \<bar>q - of_int (round_half_even q)\<bar> \<le> 1 / 2) \<and>
           safe_float (PFloat f) = PFloat f \<and>
           (\<bar>n\<bar> \<le> 2 ^ 53 \<longrightarrow>
              safe_float (PInt n) = PFloat (Finite (of_int n)) \<and> safe_int (PInt n) = PInt n)"
proof -
  have c: "current_section raw = Inr (expected_current (field_of raw ''current'' (PDict [])))"
    using assms by (rule current_section_ok)
  have doc: "build_json t raw p la lo tz = Inr doc \<longrightarrow>
      current doc = expected_current (field_of raw ''current'' (PDict []))"
    using build_json_Inr(1) [of t raw p la lo tz doc] c by auto
  have tot: "wf_raw raw \<longrightarrow> (\<exists>d. build_json t raw p la lo tz = Inr d)"
    by (simp add: build_json_ok)
  have conv: "safe_float PNone = PNone"
    "py_float x = Inl e \<longrightarrow> safe_float x = PNone"
    "x \<noteq> PNone \<and> py_float x = Inr f \<longrightarrow> safe_float x = PFloat f"
    "safe_int PNone = PNone"
    "py_float x = Inl e \<longrightarrow> safe_int x = PNone"
    "py_float x = Inr f \<and> py_round f = Inl e' \<longrightarrow> safe_int x = PNone"
    "x \<noteq> PNone \<and> py_float x = Inr (Finite q) \<longrightarrow>
       safe_int x = PInt (round_half_even q) \<and> \<bar>q - of_int (round_half_even q)\<bar> \<le> 1 / 2"
    "safe_float (PFloat f) = PFloat f"
    "\<bar>n\<bar> \<le> 2 ^ 53 \<longrightarrow>
       safe_float (PInt n) = PFloat (Finite (of_int n)) \<and> safe_int (PInt n) = PInt n"
    using round_half_even_nearest [of q] safe_float_int [of n] safe_int_int [of n]
    by (simp_all add: safe_float_def safe_int_def)
  show ?thesis
    apply (rule exI [of _ "expected_current (field_of raw ''current'' (PDict []))"])
    using c doc tot conv
    apply (simp add: expected_current_def)
    done
qed

text \<open>
  On the sample response: the float 21.5, the absent apparent temperature, the integer
  58 and the string \<^verbatim>\<open>"3"\<close>; a string that is no number; the integer 58 as a float.
\<close>

theorem current_fields_converted_witness:
  "is_dict sample_raw \<and> is_dict (field_of sample_raw ''current'' (PDict [])) \<and> wf_raw sample_raw \<and>
   py_float (PStr ''n/a'') = Inl ValueError \<and>
   PInt 58 \<noteq> PNone \<and> py_float (PInt 58) = Inr (Finite 58) \<and>
   (\<exists>c. current_section sample_raw = Inr c \<and>
        (\<exists>d. build_json sample_clock sample_raw PLACE_NAME LAT LON TIMEZONE = Inr d) \<and>
        current.temperature_c c = PFloat (Finite (43 / 2)) \<and>
        current.feels_like_c c = PNone \<and>
        current.humidity_pct c = PInt 58 \<and>
        current.weather_code c = PInt 3 \<and>
        safe_float (PStr ''n/a'') = PNone \<and>
        safe_float (PInt 58) = PFloat (Finite 58) \<and>
        safe_int (PInt 58) = PInt (round_half_even 58) \<and>
        safe_int (PInt 58) = PInt 58)"
proof -
  have h1: "is_dict sample_raw" by code_simp
  have h2: "is_dict (field_of sample_raw ''current'' (PDict []))" by code_simp
  have h3: "wf_raw sample_raw" by code_simp
  have h4: "py_float (PStr ''n/a'') = Inl ValueError" by code_simp
  have h5: "py_float (PInt 58) = Inr (Finite 58)" by code_simp
  have v: "safe_float (dict_get (field_of sample_raw ''current'' (PDict [])) ''temperature_2m'' PNone)
             = PFloat (Finite (43 / 2))"
    "safe_float (dict_get (field_of sample_raw ''current'' (PDict [])) ''apparent_temperature'' PNone)
             = PNone"
    "safe_int (dict_get (field_of sample_raw ''current'' (PDict [])) ''relative_humidity_2m'' PNone)
             = PInt 58"
    "safe_int (dict_get (field_of sample_raw ''current'' (PDict [])) ''weather_code'' PNone)
             = PInt 3"
    by code_simp+
  have a: "safe_float (PStr ''n/a'') = PNone"
    using current_fields_converted [OF h1 h2, where x = "PStr ''n/a''" and e = ValueError] h4
    by blast
  have b: "safe_float (PInt 58) = PFloat (Finite 58) \<and> safe_int (PInt 58) = PInt (round_half_even 58)"
    using current_fields_converted [OF h1 h2, where x = "PInt 58" and f = "Finite 58" and q = 58] h5
    by blast
  have n: "\<bar>58 :: int\<bar> \<le> 2 ^ 53" by simp
  have b': "safe_int (PInt 58) = PInt 58"
    using current_fields_converted [OF h1 h2, where n = 58] n by blast
  obtain c where c: "current_section sample_raw = Inr c"
    "wf_raw sample_raw \<longrightarrow> (\<exists>d. build_json sample_clock sample_raw PLACE_NAME LAT LON TIMEZONE = Inr d)"
    "current.temperature_c c =
       safe_float (dict_get (field_of sample_raw ''current'' (PDict [])) ''temperature_2m'' PNone)"
    "current.feels_like_c c =
       safe_float (dict_get (field_of sample_raw ''current'' (PDict [])) ''apparent_temperature'' PNone)"
    "current.humidity_pct c =
       safe_int (dict_get (field_of sample_raw ''current'' (PDict [])) ''relative_humidity_2m'' PNone)"
    "current.weather_code c =
       safe_int (dict_get (field_of sample_raw ''current'' (PDict [])) ''weather_code'' PNone)"
    using current_fields_converted [OF h1 h2, where t = sample_clock and p = PLACE_NAME
        and la = LAT and lo = LON and tz = TIMEZONE]
    by blast
  show ?thesis
    using h1 h2 h3 h4 h5 a b b' c by (auto simp: v)
qed

subsection \<open>C2: the lengths of the hourly and daily lists\<close>

text \<open>
  C2: on a well-formed raw response \<open>build_json\<close> returns; whenever it returns, the
  hourly list has \<open>min(24, len(raw.hourly.time))\<close> entries and the daily list
  \<open>min(7, len(raw.daily.time))\<close>; and when both time arrays are empty (and the three
  sections are dictionaries, absent or false) it returns with both lists empty, whatever
  the other fields hold.
\<close>

theorem section_lengths:
  "(wf_raw raw \<longrightarrow> (\<exists>d. build_json t raw p la lo tz = Inr d)) \<and>
   (build_json t raw p la lo tz = Inr doc \<longrightarrow>
      length (hourly doc) =
        min 24 (length (items (field_of (field_of raw ''hourly'' (PDict [])) ''time'' (PList [])))) \<and>
      length (daily doc) =
        min 7 (length (items (field_of (field_of raw ''daily'' (PDict [])) ''time'' (PList []))))) \<and>
   (is_dict raw \<and> is_dict (field_of raw ''current'' (PDict [])) \<and>
    is_dict (field_of raw ''hourly'' (PDict [])) \<and> is_dict (field_of raw ''daily'' (PDict [])) \<and>
    field_of (field_of raw ''hourly'' (PDict [])) ''time'' (PList []) = PList [] \<and>
    field_of (field_of raw ''daily'' (PDict [])) ''time'' (PList []) = PList [] \<longrightarrow>
      (\<exists>d. build_json t raw p la lo tz = Inr d \<and> hourly d = [] \<and> daily d = []))"
proof (intro conjI impI)
  assume "wf_raw raw"
  then show "\<exists>d. build_json t raw p la lo tz = Inr d" by (simp add: build_json_ok)
next
  assume r: "build_json t raw p la lo tz = Inr doc"
  show "length (hourly doc) =
      min 24 (length (items (field_of (field_of raw ''hourly'' (PDict [])) ''time'' (PList []))))"
    using build_json_Inr(2) [OF r] by (rule hourly_section_length)
  show "length (daily doc) =
      min 7 (length (items (field_of (field_of raw ''daily'' (PDict [])) ''time'' (PList []))))"
    using build_json_Inr(3) [OF r] by (rule daily_section_length)
next
  assume a: "is_dict raw \<and> is_dict (field_of raw ''current'' (PDict [])) \<and>
    is_dict (field_of raw ''hourly'' (PDict [])) \<and> is_dict (field_of raw ''daily'' (PDict [])) \<and>
    field_of (field_of raw ''hourly'' (PDict [])) ''time'' (PList []) = PList [] \<and>
    field_of (field_of raw ''daily'' (PDict [])) ''time'' (PList []) = PList []"
  then have "current_section raw = Inr (expected_current (field_of raw ''current'' (PDict [])))"
    and "hourly_section raw = Inr []" and "daily_section raw = Inr []"
    by (simp_all add: current_section_ok hourly_section_no_times daily_section_no_times)
  then show "\<exists>d. build_json t raw p la lo tz = Inr d \<and> hourly d = [] \<and> daily d = []"
    by (simp add: build_json_def)
qed

text \<open>Three hourly stamps give 3 rows, 30 give 24; one day gives 1 row, 9 give 7.\<close>

theorem section_lengths_witness:
  "wf_raw sample_raw \<and> wf_raw long_raw \<and>
   (\<exists>d. build_json sample_clock sample_raw PLACE_NAME LAT LON TIMEZONE = Inr d \<and>
      length (hourly d) = 3 \<and> length (daily d) = 1) \<and>
   (\<exists>d. build_json sample_clock long_raw PLACE_NAME LAT LON TIMEZONE = Inr d \<and>
      length (hourly d) = 24 \<and> length (daily d) = 7) \<and>
   is_dict bare_raw \<and>
   field_of (field_of bare_raw ''hourly'' (PDict [])) ''time'' (PList []) = PList [] \<and>
   field_of (field_of bare_raw ''daily'' (PDict [])) ''time'' (PList []) = PList [] \<and>
   (\<exists>d. build_json sample_clock bare_raw PLACE_NAME LAT LON TIMEZONE = Inr d \<and>
      hourly d = [] \<and> daily d = [])"
proof -
  obtain d1 where d1: "build_json sample_clock sample_raw PLACE_NAME LAT LON TIMEZONE = Inr d1"
    using section_lengths [where raw = sample_raw and t = sample_clock and p = PLACE_NAME
        and la = LAT and lo = LON and tz = TIMEZONE] sample_raw_wf by blast
  have l1: "length (hourly d1) = 3 \<and> length (daily d1) = 1"
    using section_lengths [where raw = sample_raw and t = sample_clock and p = PLACE_NAME
        and la = LAT and lo = LON and tz = TIMEZONE and doc = d1] d1
    by (simp add: sample_lengths)
  obtain d2 where d2: "build_json sample_clock long_raw PLACE_NAME LAT LON TIMEZONE = Inr d2"
    using section_lengths [where raw = long_raw and t = sample_clock and p = PLACE_NAME
        and la = LAT and lo = LON and tz = TIMEZONE] long_raw_wf by blast
  have l2: "length (hourly d2) = 24 \<and> length (daily d2) = 7"
    using section_lengths [where raw = long_raw and t = sample_clock and p = PLACE_NAME
        and la = LAT and lo = LON and tz = TIMEZONE and doc = d2] d2
    by (simp add: sample_lengths)
  have i: "is_dict bare_raw" by (simp add: bare_raw_def)
  have e: "\<exists>d. build_json sample_clock bare_raw PLACE_NAME LAT LON TIMEZONE = Inr d \<and>
      hourly d = [] \<and> daily d = []"
    using section_lengths [where raw = bare_raw and t = sample_clock and p = PLACE_NAME
        and la = LAT and lo = LON and tz = TIMEZONE] i bare_raw_fields by blast
  show ?thesis
    using sample_raw_wf long_raw_wf d1 l1 d2 l2 i bare_raw_fields(4,5) e by blast
qed

subsection \<open>C3: measurement arrays shorter than the time array\<close>

text \<open>
  C3: on a well-formed raw response \<open>build_json\<close> returns a document in which, at
  every position \<open>i\<close> of the hourly list (so \<open>i < min(24, len(time))\<close>), the row is the
  time stamp \<open>i\<close> with, for each measurement, the converted element \<open>i\<close> of its array
  or null when \<open>i\<close> is at or beyond the length of that array; and likewise for the daily
  list. The arrays need not have the length of the time array.
\<close>

theorem short_arrays_give_null:
  assumes "wf_raw raw"
  shows "\<exists>doc. build_json t raw p la lo tz = Inr doc \<and>
    (\<forall>i < length (hourly doc).
       hourly doc ! i = expected_hourly_row (field_of raw ''hourly'' (PDict [])) i \<and>
       (length (items (field_of (field_of raw ''hourly'' (PDict [])) ''temperature_2m'' (PList []))) \<le> i
          \<longrightarrow> hourly_row.temperature_c (hourly doc ! i) = PNone) \<and>
       (length (items (field_of (field_of raw ''hourly'' (PDict [])) ''apparent_temperature'' (PList []))) \<le> i
          \<longrightarrow> hourly_row.feels_like_c (hourly doc ! i) = PNone) \<and>
       (length (items (field_of (field_of raw ''hourly'' (PDict [])) ''precipitation_probability'' (PList []))) \<le> i
          \<longrightarrow> hourly_row.precip_prob_pct (hourly doc ! i) = PNone) \<and>
       (length (items (field_of (field_of raw ''hourly'' (PDict [])) ''wind_speed_10m'' (PList []))) \<le> i
          \<longrightarrow> hourly_row.wind_speed_kmh (hourly doc ! i) = PNone) \<and>
       (length (items (field_of (field_of raw ''hourly'' (PDict [])) ''wind_direction_10m'' (PList []))) \<le> i
          \<longrightarrow> hourly_row.wind_dir_deg (hourly doc ! i) = PNone) \<and>
       (length (items (field_of (field_of raw ''hourly'' (PDict [])) ''wind_gusts_10m'' (PList []))) \<le> i
          \<longrightarrow> hourly_row.wind_gust_kmh (hourly doc ! i) = PNone) \<and>
       (length (items (field_of (field_of raw ''hourly'' (PDict [])) ''weather_code'' (PList []))) \<le> i
          \<longrightarrow> hourly_row.weather_code (hourly doc ! i) = PNone)) \<and>
    (\<forall>i < length (daily doc).
       daily doc ! i = expected_daily_row (field_of raw ''daily'' (PDict [])) i \<and>
       (length (items (field_of (field_of raw ''daily'' (PDict [])) ''temperature_2m_max'' (PList []))) \<le> i
          \<longrightarrow> tmax_c (daily doc ! i) = PNone) \<and>
       (length (items (field_of (field_of raw ''daily'' (PDict [])) ''temperature_2m_min'' (PList []))) \<le> i
          \<longrightarrow> tmin_c (daily doc ! i) = PNone) \<and>
       (length (items (field_of (field_of raw ''daily'' (PDict [])) ''weather_code'' (PList []))) \<le> i
          \<longrightarrow> daily_row.weather_code (daily doc ! i) = PNone) \<and>
       (length (items (field_of (field_of raw ''daily'' (PDict [])) ''precipitation_probability_max'' (PList []))) \<le> i
          \<longrightarrow> daily_row.precip_prob_pct (daily doc ! i) = PNone))"
  by (simp add: build_json_ok [OF assms] expected_hourly_row_def expected_daily_row_def cell_of_def)

text \<open>
  The sample has three hourly stamps and two temperatures: row 2 has a null temperature.
  It has one day and no array of minima: row 0 has a null minimum.
\<close>

theorem short_arrays_give_null_witness:
  "wf_raw sample_raw \<and>
   (\<exists>doc. build_json sample_clock sample_raw PLACE_NAME LAT LON TIMEZONE = Inr doc \<and>
      2 < length (hourly doc) \<and>
      length (items (field_of (field_of sample_raw ''hourly'' (PDict [])) ''temperature_2m'' (PList []))) \<le> 2 \<and>
      hourly_row.temperature_c (hourly doc ! 2) = PNone \<and>
      0 < length (daily doc) \<and>
      length (items (field_of (field_of sample_raw ''daily'' (PDict [])) ''temperature_2m_min'' (PList []))) \<le> 0 \<and>
      tmin_c (daily doc ! 0) = PNone)"
proof -
  have "\<exists>doc. build_json sample_clock sample_raw PLACE_NAME LAT LON TIMEZONE = Inr doc \<and>
      2 < length (hourly doc) \<and>
      hourly_row.temperature_c (hourly doc ! 2) = PNone \<and>
      0 < length (daily doc) \<and>
      tmin_c (daily doc ! 0) = PNone"
    using short_arrays_give_null [OF sample_raw_wf, of sample_clock PLACE_NAME LAT LON TIMEZONE]
  proof (elim exE conjE, goal_cases)
    case (1 doc)
    have l: "length (hourly doc) = 3" "length (daily doc) = 1"
      using hourly_section_length [OF build_json_Inr(2) [OF 1(1)]]
        daily_section_length [OF build_json_Inr(3) [OF 1(1)]]
      by (simp_all only: sample_lengths min.absorb2 numeral_le_iff semiring_norm)
    have h2: "2 < length (hourly doc)" and d0: "0 < length (daily doc)"
      by (simp_all add: l)
    have "length (items (field_of (field_of sample_raw ''hourly'' (PDict [])) ''temperature_2m'' (PList []))) \<le> 2
        \<longrightarrow> hourly_row.temperature_c (hourly doc ! 2) = PNone"
      using 1(2) [rule_format, OF h2] by (elim conjE)
    then have a: "hourly_row.temperature_c (hourly doc ! 2) = PNone"
      by (simp add: sample_lengths)
    have "length (items (field_of (field_of sample_raw ''daily'' (PDict [])) ''temperature_2m_min'' (PList []))) \<le> 0
        \<longrightarrow> tmin_c (daily doc ! 0) = PNone"
      using 1(3) [rule_format, OF d0] by (elim conjE)
    then have b: "tmin_c (daily doc ! 0) = PNone"
      by (simp add: sample_lengths)
    show ?case using 1(1) h2 d0 a b by blast
  qed
  then show ?thesis
    using sample_raw_wf by (simp only: sample_lengths) simp
qed

subsection \<open>C4: how \<open>safe_int\<close> rounds\<close>

text \<open>
  C4 as stated (ties are rounded away from zero) fails at the float 2.5, which is half-way
  between 2 and 3: \<open>safe_int\<close> returns 2, rounding away from zero gives 3.
\<close>

theorem safe_int_half_away_counterexample:
  "safe_int (PFloat (Finite (5 / 2))) = PInt 2 \<and> round_half_away (5 / 2) = 3"
  by code_simp

text \<open>
  C4, amended: for every finite float \<open>x\<close>, \<open>safe_int x\<close> is an integer nearest to \<open>x\<close>;
  when \<open>x\<close> is exactly half-way between two integers it is the even one; whenever
  \<open>x\<close> is not half-way it is also what rounding half away from zero gives. The floats
  NaN and plus or minus infinity give null. \<open>safe_int 71.6\<close> is 72.
\<close>

theorem safe_int_rounds_half_even:
  "safe_int (PFloat (Finite q)) = PInt (round_half_even q) \<and>
   \<bar>q - of_int (round_half_even q)\<bar> \<le> 1 / 2 \<and>
   (\<bar>q - of_int (round_half_even q)\<bar> = 1 / 2 \<longrightarrow> even (round_half_even q)) \<and>
   (q - of_int \<lfloor>q\<rfloor> \<noteq> 1 / 2 \<longrightarrow> round_half_even q = round_half_away q) \<and>
   safe_int (PFloat NaN) = PNone \<and>
   safe_int (PFloat PosInf) = PNone \<and>
   safe_int (PFloat NegInf) = PNone \<and>
   safe_int (PFloat (round_to_double (716 / 10))) = PInt 72"
proof -
  have "safe_int (PFloat (round_to_double (716 / 10))) = PInt 72" by code_simp
  then show ?thesis
    using round_half_even_nearest [of q] round_half_even_tie [of q] round_half_away_eq [of q]
    by (simp add: safe_int_simps)
qed

text \<open>The tie 2.5 goes to the even integer 2; 3.58 is no tie and goes to 4 either way.\<close>

theorem safe_int_rounds_half_even_witness:
  "\<bar>(5 / 2 :: rat) - of_int (round_half_even (5 / 2))\<bar> = 1 / 2 \<and>
   even (round_half_even (5 / 2)) \<and>
   (179 / 50 :: rat) - of_int \<lfloor>179 / 50 :: rat\<rfloor> \<noteq> 1 / 2 \<and>
   round_half_even (179 / 50) = round_half_away (179 / 50) \<and>
   round_half_away (179 / 50) = 4"
proof -
  have h1: "\<bar>(5 / 2 :: rat) - of_int (round_half_even (5 / 2))\<bar> = 1 / 2" by code_simp
  have h2: "(179 / 50 :: rat) - of_int \<lfloor>179 / 50 :: rat\<rfloor> \<noteq> 1 / 2" by code_simp
  have v: "round_half_away (179 / 50) = 4" by code_simp
  show ?thesis
    using safe_int_rounds_half_even [of "5 / 2"] safe_int_rounds_half_even [of "179 / 50"] h1 h2 v
    by blast
qed

subsection \<open>C5: the type of the numeric fields\<close>

text \<open>
  C5 as stated fails when a well-formed float is taken to be a finite number: for the
  well-formed raw response whose current temperature is the string \<^verbatim>\<open>"nan"\<close>,
  \<open>build_json\<close> returns a document whose \<^verbatim>\<open>temperature_c\<close> is the float NaN.
\<close>

theorem numeric_field_nan_counterexample:
  "wf_raw nan_raw \<and>
   build_json sample_clock nan_raw PLACE_NAME LAT LON TIMEZONE = Inr nan_doc \<and>
   current.temperature_c (current nan_doc) = PFloat NaN \<and>
   \<not> finite_or_null (current.temperature_c (current nan_doc))"
proof -
  have w: "wf_raw nan_raw" by code_simp
  have c: "expected_current (field_of nan_raw ''current'' (PDict [])) = current nan_doc"
    by code_simp
  have l: "min 24 (length (items (field_of (field_of nan_raw ''hourly'' (PDict [])) ''time'' (PList [])))) = 0"
    "min 7 (length (items (field_of (field_of nan_raw ''daily'' (PDict [])) ''time'' (PList [])))) = 0"
    by code_simp+
  have "build_json sample_clock nan_raw PLACE_NAME LAT LON TIMEZONE = Inr nan_doc"
    by (simp add: build_json_ok [OF w] c l) (simp add: nan_doc_def)
  then show ?thesis using w by (simp add: nan_doc_def)
qed

text \<open>
  C5, amended: in every document that \<open>build_json\<close> returns, for any raw response, each
  numeric field of the current record and of every hourly and daily row is a float or
  null (the float fields) or an integer or null (the integer fields), so never a string;
  \<open>safe_float\<close> and \<open>safe_int\<close> return such a value on every input and never raise;
  and on a well-formed raw response \<open>build_json\<close> does return a document. The float
  may be NaN or an infinity, and is so only when the raw value is that float or a string
  that parses to it; an integer field always holds a finite number or null.
\<close>

theorem numeric_fields_typed:
  "(build_json t raw p la lo tz = Inr doc \<longrightarrow>
      float_or_null (current.temperature_c (current doc)) \<and>
      float_or_null (current.feels_like_c (current doc)) \<and>
      int_or_null (current.humidity_pct (current doc)) \<and>
      float_or_null (current.wind_speed_kmh (current doc)) \<and>
      int_or_null (current.wind_dir_deg (current doc)) \<and>
      float_or_null (current.wind_gust_kmh (current doc)) \<and>
      int_or_null (current.weather_code (current doc)) \<and>
      (\<forall>r \<in> set (hourly doc).
         float_or_null (hourly_row.temperature_c r) \<and>
         float_or_null (hourly_row.feels_like_c r) \<and>
         int_or_null (hourly_row.precip_prob_pct r) \<and>
         float_or_null (hourly_row.wind_speed_kmh r) \<and>
         int_or_null (hourly_row.wind_dir_deg r) \<and>
         float_or_null (hourly_row.wind_gust_kmh r) \<and>
         int_or_null (hourly_row.weather_code r)) \<and>
      (\<forall>r \<in> set (daily doc).
         float_or_null (tmax_c r) \<and>
         float_or_null (tmin_c r) \<and>
         int_or_null (daily_row.weather_code r) \<and>
         int_or_null (daily_row.precip_prob_pct r))) \<and>
   (wf_raw raw \<longrightarrow> (\<exists>d. build_json t raw p la lo tz = Inr d)) \<and>
   float_or_null (safe_float x) \<and> safe_float x \<noteq> PStr s \<and>
   int_or_null (safe_int x) \<and> safe_int x \<noteq> PStr s \<and>
   finite_or_null (safe_int x) \<and>
   (safe_float x = PFloat f \<and> (\<forall>q. f \<noteq> Finite q) \<longrightarrow>
      x = PFloat f \<or> (\<exists>s'. x = PStr s' \<and> float_of_str s' = Some f))"
proof (intro conjI impI ballI)
  assume r: "build_json t raw p la lo tz = Inr doc"
  note c = current_section_types [OF build_json_Inr(1) [OF r]]
  show "float_or_null (current.temperature_c (current doc))"
    "float_or_null (current.feels_like_c (current doc))"
    "int_or_null (current.humidity_pct (current doc))"
    "float_or_null (current.wind_speed_kmh (current doc))"
    "int_or_null (current.wind_dir_deg (current doc))"
    "float_or_null (current.wind_gust_kmh (current doc))"
    "int_or_null (current.weather_code (current doc))"
    using c by blast+
  {
    fix row assume "row \<in> set (hourly doc)"
    note h = hourly_section_types [OF build_json_Inr(2) [OF r] this]
    show "float_or_null (hourly_row.temperature_c row)"
      "float_or_null (hourly_row.feels_like_c row)"
      "int_or_null (hourly_row.precip_prob_pct row)"
      "float_or_null (hourly_row.wind_speed_kmh row)"
      "int_or_null (hourly_row.wind_dir_deg row)"
      "float_or_null (hourly_row.wind_gust_kmh row)"
      "int_or_null (hourly_row.weather_code row)"
      using h by blast+
  }
  {
    fix row assume "row \<in> set (daily doc)"
    note d = daily_section_types [OF build_json_Inr(3) [OF r] this]
    show "float_or_null (tmax_c row)"
      "float_or_null (tmin_c row)"
      "int_or_null (daily_row.weather_code row)"
      "int_or_null (daily_row.precip_prob_pct row)"
      using d by blast+
  }
next
  assume "wf_raw raw"
  then show "\<exists>d. build_json t raw p la lo tz = Inr d" by (simp add: build_json_ok)
next
  show "float_or_null (safe_float x)" by (rule safe_float_type)
  show "int_or_null (safe_int x)" by (rule safe_int_type)
  show "safe_float x \<noteq> PStr s" using safe_float_type [of x] by (cases "safe_float x") simp_all
  show "safe_int x \<noteq> PStr s" using safe_int_type [of x] by (cases "safe_int x") simp_all
  show "finite_or_null (safe_int x)" using safe_int_type [of x] by (cases "safe_int x") simp_all
next
  assume a: "safe_float x = PFloat f \<and> (\<forall>q. f \<noteq> Finite q)"
  show "x = PFloat f \<or> (\<exists>s'. x = PStr s' \<and> float_of_str s' = Some f)"
  proof (cases x)
    case (PInt n)
    with a show ?thesis
      by (cases "round_to_double (of_int n)") (auto simp: safe_float_def float_of_int_def, metis)
  next
    case (PStr s')
    with a show ?thesis by (auto simp: safe_float_simps split: option.splits)
  qed (use a in \<open>auto simp: safe_float_simps split: if_splits\<close>)
qed

theorem numeric_fields_typed_witness:
  "wf_raw sample_raw \<and>
   safe_float (PStr ''nan'') = PFloat NaN \<and> float_of_str ''nan'' = Some NaN \<and>
   (\<exists>doc. build_json sample_clock sample_raw PLACE_NAME LAT LON TIMEZONE = Inr doc \<and>
      hourly doc \<noteq> [] \<and> daily doc \<noteq> [] \<and>
      float_or_null (current.temperature_c (current doc)) \<and>
      int_or_null (current.humidity_pct (current doc)) \<and>
      (\<forall>r \<in> set (hourly doc).
         float_or_null (hourly_row.temperature_c r) \<and> int_or_null (hourly_row.weather_code r)) \<and>
      (\<forall>r \<in> set (daily doc).
         float_or_null (tmax_c r) \<and> int_or_null (daily_row.precip_prob_pct r)))"
proof -
  have "\<exists>doc. build_json sample_clock sample_raw PLACE_NAME LAT LON TIMEZONE = Inr doc"
    using numeric_fields_typed [where raw = sample_raw and t = sample_clock and p = PLACE_NAME
        and la = LAT and lo = LON and tz = TIMEZONE, THEN conjunct2, THEN conjunct1]
      sample_raw_wf by (rule mp)
  then obtain doc where doc: "build_json sample_clock sample_raw PLACE_NAME LAT LON TIMEZONE = Inr doc" ..
  have l: "length (hourly doc) = 3" "length (daily doc) = 1"
    using hourly_section_length [OF build_json_Inr(2) [OF doc]]
      daily_section_length [OF build_json_Inr(3) [OF doc]]
    by (simp_all add: sample_lengths)
  then have n: "hourly doc \<noteq> []" "daily doc \<noteq> []" by auto
  note t = numeric_fields_typed [where raw = sample_raw and t = sample_clock and p = PLACE_NAME
        and la = LAT and lo = LON and tz = TIMEZONE and doc = doc, THEN conjunct1, THEN mp, OF doc]
  have c: "float_or_null (current.temperature_c (current doc))"
    "int_or_null (current.humidity_pct (current doc))"
    using t [THEN conjunct1] t [THEN conjunct2, THEN conjunct2, THEN conjunct1] by simp_all
  note hs = t [THEN conjunct2, THEN conjunct2, THEN conjunct2, THEN conjunct2, THEN conjunct2, THEN conjunct2, THEN conjunct2, THEN conjunct1]
  note ds = t [THEN conjunct2, THEN conjunct2, THEN conjunct2, THEN conjunct2, THEN conjunct2, THEN conjunct2, THEN conjunct2, THEN conjunct2]
  have h: "\<forall>r \<in> set (hourly doc).
         float_or_null (hourly_row.temperature_c r) \<and> int_or_null (hourly_row.weather_code r)"
    using hs by blast
  have d: "\<forall>r \<in> set (daily doc).
         float_or_null (tmax_c r) \<and> int_or_null (daily_row.precip_prob_pct r)"
    using ds by blast
  have nn: "safe_float (PStr ''nan'') = PFloat NaN" by code_simp
  have "PStr ''nan'' = PFloat NaN \<or> (\<exists>s'. PStr ''nan'' = PStr s' \<and> float_of_str s' = Some NaN)"
    using numeric_fields_typed [where x = "PStr ''nan''" and f = NaN, THEN conjunct2,
        THEN conjunct2, THEN conjunct2, THEN conjunct2, THEN conjunct2, THEN conjunct2,
        THEN conjunct2, THEN mp] nn
    by simp
  then have ns: "float_of_str ''nan'' = Some NaN" by simp
  show ?thesis
    using sample_raw_wf doc n c h d nn ns by (intro conjI exI [of _ doc])
qed

subsection \<open>C6: what \<open>build_json\<close> depends on\<close>

text \<open>
  C6 as stated fails: the document holds \<^verbatim>\<open>generated_utc\<close>, read from the clock, so two
  calls with the same arguments one second apart return different documents.
\<close>

theorem build_json_clock_counterexample:
  "build_json sample_clock sample_raw PLACE_NAME LAT LON TIMEZONE \<noteq>
   build_json later_clock sample_raw PLACE_NAME LAT LON TIMEZONE"
  by (simp add: build_json_ok [OF sample_raw_wf] sample_clocks)

text \<open>
  C6, amended: \<open>build_json\<close> is a function of the raw response, the static metadata
  and the UTC clock reading, and of the clock only through \<^verbatim>\<open>meta.generated_utc\<close>: a call
  at another clock reading returns a document with the same current, hourly and daily
  sections and the same metadata but for \<^verbatim>\<open>generated_utc\<close>, which is the reading of its
  own clock; it raises the same exception if the first call raises; and two calls whose
  clock readings agree to the second return identical documents.
\<close>

theorem build_json_clock_only:
  "(build_json t raw p la lo tz = Inr doc \<longrightarrow>
      (\<exists>doc'. build_json t' raw p la lo tz = Inr doc' \<and>
         current doc' = current doc \<and> hourly doc' = hourly doc \<and> daily doc' = daily doc \<and>
         meta doc' = (meta doc) \<lparr> generated_utc := now_utc_iso t' \<rparr> \<and>
         generated_utc (meta doc) = now_utc_iso t)) \<and>
   (build_json t raw p la lo tz = Inl e \<longrightarrow> build_json t' raw p la lo tz = Inl e) \<and>
   (now_utc_iso t = now_utc_iso t' \<longrightarrow>
      build_json t raw p la lo tz = build_json t' raw p la lo tz)"
  by (auto simp: build_json_def bind_exn_def split: sum.splits)

theorem build_json_clock_only_witness:
  "(\<exists>doc'. build_json later_clock sample_raw PLACE_NAME LAT LON TIMEZONE = Inr doc' \<and>
      generated_utc (meta doc') = ''2026-01-28T17:05:10+00:00'') \<and>
   build_json sample_clock (PList []) PLACE_NAME LAT LON TIMEZONE =
     Inl (Exn AttributeError (quoted ''list'' @ '' object has no attribute '' @ quoted ''get'')) \<and>
   build_json later_clock (PList []) PLACE_NAME LAT LON TIMEZONE =
     Inl (Exn AttributeError (quoted ''list'' @ '' object has no attribute '' @ quoted ''get'')) \<and>
   now_utc_iso sample_clock = now_utc_iso (sample_clock \<lparr> microsecond := 5 \<rparr>) \<and>
   build_json sample_clock sample_raw PLACE_NAME LAT LON TIMEZONE =
     build_json (sample_clock \<lparr> microsecond := 5 \<rparr>) sample_raw PLACE_NAME LAT LON TIMEZONE"
proof -
  obtain doc where d: "build_json sample_clock sample_raw PLACE_NAME LAT LON TIMEZONE = Inr doc"
    by (simp add: build_json_ok [OF sample_raw_wf])
  have e: "build_json sample_clock (PList []) PLACE_NAME LAT LON TIMEZONE =
     Inl (Exn AttributeError (quoted ''list'' @ '' object has no attribute '' @ quoted ''get''))"
    by (simp add: build_json_def current_section_def get_or_def py_get_def)
  have m: "now_utc_iso sample_clock = now_utc_iso (sample_clock \<lparr> microsecond := 5 \<rparr>)"
    by (simp add: now_utc_iso_def isoformat_seconds_def)
  have a: "\<exists>doc'. build_json later_clock sample_raw PLACE_NAME LAT LON TIMEZONE = Inr doc' \<and>
      meta doc' = (meta doc) \<lparr> generated_utc := now_utc_iso later_clock \<rparr>"
    using build_json_clock_only [where t = sample_clock and t' = later_clock and doc = doc] d
    by blast
  have b: "build_json later_clock (PList []) PLACE_NAME LAT LON TIMEZONE =
     Inl (Exn AttributeError (quoted ''list'' @ '' object has no attribute '' @ quoted ''get''))"
    using build_json_clock_only [where t = sample_clock and t' = later_clock] e by blast
  have c: "build_json sample_clock sample_raw PLACE_NAME LAT LON TIMEZONE =
     build_json (sample_clock \<lparr> microsecond := 5 \<rparr>) sample_raw PLACE_NAME LAT LON TIMEZONE"
    using build_json_clock_only [where t = sample_clock and t' = "sample_clock \<lparr> microsecond := 5 \<rparr>"] m
    by blast
  from a have "\<exists>doc'. build_json later_clock sample_raw PLACE_NAME LAT LON TIMEZONE = Inr doc' \<and>
      generated_utc (meta doc') = ''2026-01-28T17:05:10+00:00''"
    by (auto simp: sample_clocks)
  then show ?thesis using e b m c by blast
qed

subsection \<open>C8: the exit status of \<open>main\<close>\<close>

text \<open>
  C8 as stated fails where fetch, normalize and write succeed and the last \<^verbatim>\<open>print\<close>
  raises: that \<^verbatim>\<open>print\<close> stands inside the \<^verbatim>\<open>try\<close>, so the run ends with status 1 and
  an \<^verbatim>\<open>ERROR:\<close> line although the file has been written in full.
\<close>

theorem main_print_failure_counterexample:
  "fetch_open_meteo (http mute_env) LAT LON TIMEZONE = Inr sample_raw \<and>
   build_json (clock mute_env) sample_raw PLACE_NAME LAT LON TIMEZONE = Inr sample_doc \<and>
   disk mute_env = Completes \<and>
   main mute_env empty_world =
     (1, empty_world \<lparr> files := (files empty_world)(OUTFILE \<mapsto> Dump sample_doc),
                          stderr := [''ERROR: [Errno 5] Input/output error''] \<rparr>)"
proof -
  have b: "build_json (clock mute_env) sample_raw PLACE_NAME LAT LON TIMEZONE = Inr sample_doc"
    by (simp only: clock_mute_env sample_doc_built)
  have d: "disk mute_env = Completes"
    and c: "console mute_env = Print_raises (Exn OSError ''[Errno 5] Input/output error'')"
    by (simp_all add: mute_env_def working_env_def)
  have "main mute_env empty_world =
     (1, empty_world \<lparr> files := (files empty_world)(OUTFILE \<mapsto> Dump sample_doc),
                          stderr := [''ERROR: [Errno 5] Input/output error''] \<rparr>)"
    by (simp add: main_def fetch_mute_env b d c write_outfile_def on_exception_def
        empty_world_def)
  then show ?thesis using fetch_mute_env b d by simp
qed

text \<open>
  C8, amended: \<open>main\<close> exits with status 0 when fetch, normalize, write and the last
  \<^verbatim>\<open>print\<close> all succeed, having written the document and printed
  \<^verbatim>\<open>Wrote weather.json\<close>, and only then; when the fetch, the normalizer, the opening of
  the file, the dump or that \<^verbatim>\<open>print\<close> raises \<open>e\<close>, it exits with status 1 after
  appending \<^verbatim>\<open>ERROR: \<close> and the message of \<open>e\<close> to the diagnostic stream (after a failed
  \<^verbatim>\<open>print\<close> with the file written); when the server answers with a status from 400 to
  599 (a 500, say) the exit status is 1 and no file is touched; and the files change only
  if fetch and normalize have succeeded.
\<close>

theorem main_exit_status:
  "(fetch_open_meteo (http env) LAT LON TIMEZONE = Inr raw \<and>
    build_json (clock env) raw PLACE_NAME LAT LON TIMEZONE = Inr out \<and>
    disk env = Completes \<and> console env = Prints \<longrightarrow>
      main env w = (0, w \<lparr> files := (files w)(OUTFILE \<mapsto> Dump out),
                            stdout := stdout w @ [''Wrote weather.json''] \<rparr>)) \<and>
   (fetch_open_meteo (http env) LAT LON TIMEZONE = Inr raw \<and>
    build_json (clock env) raw PLACE_NAME LAT LON TIMEZONE = Inr out \<and>
    disk env = Completes \<and> console env = Print_raises e \<longrightarrow>
      main env w = (1, w \<lparr> files := (files w)(OUTFILE \<mapsto> Dump out),
                            stderr := stderr w @ [''ERROR: '' @ message e] \<rparr>)) \<and>
   (fst (main env w) = 0 \<longrightarrow>
      (\<exists>raw out. fetch_open_meteo (http env) LAT LON TIMEZONE = Inr raw \<and>
         build_json (clock env) raw PLACE_NAME LAT LON TIMEZONE = Inr out \<and>
         disk env = Completes \<and> console env = Prints)) \<and>
   (fetch_open_meteo (http env) LAT LON TIMEZONE = Inl e \<longrightarrow>
      main env w = (1, w \<lparr> stderr := stderr w @ [''ERROR: '' @ message e] \<rparr>)) \<and>
   (fetch_open_meteo (http env) LAT LON TIMEZONE = Inr raw \<and>
    build_json (clock env) raw PLACE_NAME LAT LON TIMEZONE = Inl e \<longrightarrow>
      main env w = (1, w \<lparr> stderr := stderr w @ [''ERROR: '' @ message e] \<rparr>)) \<and>
   (fetch_open_meteo (http env) LAT LON TIMEZONE = Inr raw \<and>
    build_json (clock env) raw PLACE_NAME LAT LON TIMEZONE = Inr out \<and>
    disk env = Open_raises e \<longrightarrow>
      main env w = (1, w \<lparr> stderr := stderr w @ [''ERROR: '' @ message e] \<rparr>)) \<and>
   (fetch_open_meteo (http env) LAT LON TIMEZONE = Inr raw \<and>
    build_json (clock env) raw PLACE_NAME LAT LON TIMEZONE = Inr out \<and>
    disk env = Dump_raises e \<longrightarrow>
      main env w = (1, w \<lparr> files := (files w)(OUTFILE \<mapsto> Partial_dump out),
                            stderr := stderr w @ [''ERROR: '' @ message e] \<rparr>)) \<and>
   ((\<forall>rq. \<exists>r. http env rq = Returns r \<and> 400 \<le> status_code r \<and> status_code r < 600) \<longrightarrow>
      fst (main env w) = 1 \<and> files (snd (main env w)) = files w \<and>
      (\<exists>m. stderr (snd (main env w)) = stderr w @ [''ERROR: '' @ m])) \<and>
   (files (snd (main env w)) \<noteq> files w \<longrightarrow>
      (\<exists>raw out. fetch_open_meteo (http env) LAT LON TIMEZONE = Inr raw \<and>
         build_json (clock env) raw PLACE_NAME LAT LON TIMEZONE = Inr out)) \<and>
   (fst (main env w) = 0 \<or> fst (main env w) = 1)"
proof (intro conjI impI)
  assume "fetch_open_meteo (http env) LAT LON TIMEZONE = Inr raw \<and>
    build_json (clock env) raw PLACE_NAME LAT LON TIMEZONE = Inr out \<and>
    disk env = Completes \<and> console env = Prints"
  then show "main env w = (0, w \<lparr> files := (files w)(OUTFILE \<mapsto> Dump out),
                            stdout := stdout w @ [''Wrote weather.json''] \<rparr>)"
    by (simp add: main_def write_outfile_def OUTFILE_def)
next
  assume "fetch_open_meteo (http env) LAT LON TIMEZONE = Inr raw \<and>
    build_json (clock env) raw PLACE_NAME LAT LON TIMEZONE = Inr out \<and>
    disk env = Completes \<and> console env = Print_raises e"
  then show "main env w = (1, w \<lparr> files := (files w)(OUTFILE \<mapsto> Dump out),
                            stderr := stderr w @ [''ERROR: '' @ message e] \<rparr>)"
    by (simp add: main_def write_outfile_def on_exception_def)
next
  assume "fst (main env w) = 0"
  then show "\<exists>raw out. fetch_open_meteo (http env) LAT LON TIMEZONE = Inr raw \<and>
         build_json (clock env) raw PLACE_NAME LAT LON TIMEZONE = Inr out \<and>
         disk env = Completes \<and> console env = Prints"
    by (auto simp: main_def on_exception_def write_outfile_def
        split: sum.splits disk_outcome.splits print_outcome.splits)
next
  assume "fetch_open_meteo (http env) LAT LON TIMEZONE = Inl e"
  then show "main env w = (1, w \<lparr> stderr := stderr w @ [''ERROR: '' @ message e] \<rparr>)"
    by (simp add: main_def on_exception_def)
next
  assume "fetch_open_meteo (http env) LAT LON TIMEZONE = Inr raw \<and>
    build_json (clock env) raw PLACE_NAME LAT LON TIMEZONE = Inl e"
  then show "main env w = (1, w \<lparr> stderr := stderr w @ [''ERROR: '' @ message e] \<rparr>)"
    by (simp add: main_def on_exception_def)
next
  assume "fetch_open_meteo (http env) LAT LON TIMEZONE = Inr raw \<and>
    build_json (clock env) raw PLACE_NAME LAT LON TIMEZONE = Inr out \<and> disk env = Open_raises e"
  then show "main env w = (1, w \<lparr> stderr := stderr w @ [''ERROR: '' @ message e] \<rparr>)"
    by (simp add: main_def write_outfile_def on_exception_def)
next
  assume "fetch_open_meteo (http env) LAT LON TIMEZONE = Inr raw \<and>
    build_json (clock env) raw PLACE_NAME LAT LON TIMEZONE = Inr out \<and> disk env = Dump_raises e"
  then show "main env w = (1, w \<lparr> files := (files w)(OUTFILE \<mapsto> Partial_dump out),
                            stderr := stderr w @ [''ERROR: '' @ message e] \<rparr>)"
    by (simp add: main_def write_outfile_def on_exception_def)
next
  assume a: "\<forall>rq. \<exists>r. http env rq = Returns r \<and> 400 \<le> status_code r \<and> status_code r < 600"
  have "\<exists>e. fetch_open_meteo (http env) LAT LON TIMEZONE = Inl e"
  proof -
    let ?rq = "\<lparr> req_url = ''https://api.open-meteo.com/v1/forecast'',
        params = [(''latitude'', LAT), (''longitude'', LON), (''timezone'', TIMEZONE),
             (''current'', PStr (join '','' [''temperature_2m'', ''apparent_temperature'',
                ''relative_humidity_2m'', ''wind_speed_10m'', ''wind_direction_10m'',
                ''wind_gusts_10m'', ''weather_code''])),
             (''hourly'', PStr (join '','' [''temperature_2m'', ''apparent_temperature'',
                ''precipitation_probability'', ''wind_speed_10m'', ''wind_direction_10m'',
                ''wind_gusts_10m'', ''weather_code''])),
             (''daily'', PStr (join '','' [''temperature_2m_max'', ''temperature_2m_min'',
                ''precipitation_probability_max'', ''weather_code''])),
             (''forecast_days'', PInt 7)], timeout = 25 \<rparr>"
    from a obtain r where r: "http env ?rq = Returns r" "400 \<le> status_code r" "status_code r < 600"
      by blast
    then have "\<exists>e. raise_for_status r = Inl e"
      by (simp add: raise_for_status_def)
    then show ?thesis
      using r(1) by (auto simp: fetch_open_meteo_def Let_def)
  qed
  then obtain e where e: "fetch_open_meteo (http env) LAT LON TIMEZONE = Inl e" ..
  then have m: "main env w = on_exception e w" by (simp add: main_def)
  show "fst (main env w) = 1" by (simp add: m on_exception_def)
  show "files (snd (main env w)) = files w" by (simp add: m on_exception_def)
  show "\<exists>m. stderr (snd (main env w)) = stderr w @ [''ERROR: '' @ m]"
    by (simp add: m on_exception_def)
next
  assume c: "files (snd (main env w)) \<noteq> files w"
  show "\<exists>raw out. fetch_open_meteo (http env) LAT LON TIMEZONE = Inr raw \<and>
         build_json (clock env) raw PLACE_NAME LAT LON TIMEZONE = Inr out"
  proof (rule ccontr)
    assume n: "\<not> ?thesis"
    have "\<exists>e. main env w = on_exception e w"
    proof (cases "fetch_open_meteo (http env) LAT LON TIMEZONE")
      case (Inl e)
      then show ?thesis by (auto simp: main_def)
    next
      case (Inr raw)
      with n obtain e where "build_json (clock env) raw PLACE_NAME LAT LON TIMEZONE = Inl e"
        by (cases "build_json (clock env) raw PLACE_NAME LAT LON TIMEZONE") auto
      with Inr show ?thesis by (auto simp: main_def)
    qed
    then show False using c by (auto simp: on_exception_def)
  qed
next
  show "fst (main env w) = 0 \<or> fst (main env w) = 1"
    by (auto simp: main_def on_exception_def write_outfile_def
        split: sum.splits disk_outcome.splits print_outcome.splits prod.splits)
qed

text \<open>
  A server answering 500; a server answering 200 with the sample response, on a disk that
  works, that refuses to open the file, and that fills up during the dump, and with a
  standard output that cannot be written to; and a server answering 200 with a JSON list.
\<close>

theorem main_exit_status_witness:
  "main failing_env empty_world =
     (1, empty_world \<lparr> stderr :=
        [''ERROR: 500 Server Error: Internal Server Error for url: https://api.open-meteo.com/v1/forecast''] \<rparr>) \<and>
   files (snd (main failing_env empty_world)) = files empty_world \<and>
   (\<exists>out. build_json sample_clock sample_raw PLACE_NAME LAT LON TIMEZONE = Inr out \<and>
      main working_env empty_world =
        (0, empty_world \<lparr> files := (files empty_world)(OUTFILE \<mapsto> Dump out),
                             stdout := [''Wrote weather.json''] \<rparr>) \<and>
      main (working_env \<lparr> disk := Open_raises (Exn OSError ''Permission denied'') \<rparr>) empty_world =
        (1, empty_world \<lparr> stderr := [''ERROR: Permission denied''] \<rparr>) \<and>
      main (working_env \<lparr> disk := Dump_raises (Exn OSError ''No space left on device'') \<rparr>) empty_world =
        (1, empty_world \<lparr> files := (files empty_world)(OUTFILE \<mapsto> Partial_dump out),
                             stderr := [''ERROR: No space left on device''] \<rparr>) \<and>
      main (working_env \<lparr> console := Print_raises (Exn OSError ''Broken pipe'') \<rparr>) empty_world =
        (1, empty_world \<lparr> files := (files empty_world)(OUTFILE \<mapsto> Dump out),
                             stderr := [''ERROR: Broken pipe''] \<rparr>)) \<and>
   fst (main working_env empty_world) = 0 \<and>
   disk working_env = Completes \<and> console working_env = Prints \<and>
   main (working_env \<lparr> http := (\<lambda>rq. Returns \<lparr> status_code = 200, reason = ''OK'',
           url = req_url rq, json = Inr (PList []) \<rparr>) \<rparr>) empty_world =
     (1, empty_world \<lparr> stderr :=
        [''ERROR: '' @ quoted ''list'' @ '' object has no attribute '' @ quoted ''get''] \<rparr>)"
proof -
  note out = sample_doc_built
  have s: "stderr empty_world = []" "stdout empty_world = []" by (simp_all add: empty_world_def)
  have sel: "clock working_env = sample_clock" "disk working_env = Completes"
    "console working_env = Prints"
    by (simp_all add: working_env_def)
  have fw: "fetch_open_meteo (http working_env) LAT LON TIMEZONE = Inr sample_raw"
    using fetch_working_env [of Completes] by simp
  have a: "main failing_env empty_world =
     (1, empty_world \<lparr> stderr :=
        [''ERROR: 500 Server Error: Internal Server Error for url: https://api.open-meteo.com/v1/forecast''] \<rparr>)"
    using main_exit_status [where env = failing_env and w = empty_world, THEN conjunct2, THEN conjunct2, THEN conjunct2, THEN conjunct1, THEN mp,
        OF fetch_failing_env]
    by (simp add: s)
  have "\<forall>rq. \<exists>r. http failing_env rq = Returns r \<and> 400 \<le> status_code r \<and> status_code r < 600"
    by (simp add: failing_env_def)
  then have b: "files (snd (main failing_env empty_world)) = files empty_world"
    using main_exit_status [where env = failing_env and w = empty_world, THEN conjunct2, THEN conjunct2, THEN conjunct2, THEN conjunct2, THEN conjunct2, THEN conjunct2, THEN conjunct2, THEN conjunct1, THEN mp]
    by simp
  have c: "main working_env empty_world =
        (0, empty_world \<lparr> files := (files empty_world)(OUTFILE \<mapsto> Dump sample_doc),
                             stdout := [''Wrote weather.json''] \<rparr>)"
    using main_exit_status [where env = working_env and w = empty_world and raw = sample_raw
        and out = sample_doc, THEN conjunct1, THEN mp]
    by (simp add: fw sel out s)
  have d: "main (working_env \<lparr> disk := Open_raises (Exn OSError ''Permission denied'') \<rparr>) empty_world =
        (1, empty_world \<lparr> stderr := [''ERROR: Permission denied''] \<rparr>)"
    using main_exit_status [where env = "working_env \<lparr> disk := Open_raises (Exn OSError ''Permission denied'') \<rparr>"
        and w = empty_world and raw = sample_raw and out = sample_doc
        and e = "Exn OSError ''Permission denied''", THEN conjunct2, THEN conjunct2, THEN conjunct2, THEN conjunct2, THEN conjunct2, THEN conjunct1, THEN mp]
    by (simp add: fw sel out s)
  have e: "main (working_env \<lparr> disk := Dump_raises (Exn OSError ''No space left on device'') \<rparr>) empty_world =
        (1, empty_world \<lparr> files := (files empty_world)(OUTFILE \<mapsto> Partial_dump sample_doc),
                             stderr := [''ERROR: No space left on device''] \<rparr>)"
    using main_exit_status [where env = "working_env \<lparr> disk := Dump_raises (Exn OSError ''No space left on device'') \<rparr>"
        and w = empty_world and raw = sample_raw and out = sample_doc
        and e = "Exn OSError ''No space left on device''", THEN conjunct2, THEN conjunct2, THEN conjunct2, THEN conjunct2, THEN conjunct2, THEN conjunct2, THEN conjunct1, THEN mp]
    by (simp add: fw sel out s)
  have g: "main (working_env \<lparr> console := Print_raises (Exn OSError ''Broken pipe'') \<rparr>) empty_world =
        (1, empty_world \<lparr> files := (files empty_world)(OUTFILE \<mapsto> Dump sample_doc),
                             stderr := [''ERROR: Broken pipe''] \<rparr>)"
    using main_exit_status [where env = "working_env \<lparr> console := Print_raises (Exn OSError ''Broken pipe'') \<rparr>"
        and w = empty_world and raw = sample_raw and out = sample_doc
        and e = "Exn OSError ''Broken pipe''", THEN conjunct2, THEN conjunct1, THEN mp]
    by (simp add: fw sel out s)
  have h: "fst (main working_env empty_world) = 0" by (simp only: c fst_conv)
  have k: "disk working_env = Completes \<and> console working_env = Prints"
    using main_exit_status [where env = working_env and w = empty_world, THEN conjunct2, THEN conjunct2, THEN conjunct1, THEN mp, OF h]
    by (elim exE conjE) simp
  let ?env = "working_env \<lparr> http := (\<lambda>rq. Returns \<lparr> status_code = 200, reason = ''OK'',
           url = req_url rq, json = Inr (PList []) \<rparr>) \<rparr>"
  have f1: "fetch_open_meteo (http ?env) LAT LON TIMEZONE = Inr (PList [])"
    by (simp add: fetch_open_meteo_def raise_for_status_def)
  have f2: "build_json (clock ?env) (PList []) PLACE_NAME LAT LON TIMEZONE =
     Inl (Exn AttributeError (quoted ''list'' @ '' object has no attribute '' @ quoted ''get''))"
    by (simp add: build_json_def current_section_def get_or_def py_get_def)
  have f: "main ?env empty_world =
     (1, empty_world \<lparr> stderr :=
        [''ERROR: '' @ quoted ''list'' @ '' object has no attribute '' @ quoted ''get''] \<rparr>)"
    using main_exit_status [where env = ?env and w = empty_world and raw = "PList []"
        and e = "Exn AttributeError (quoted ''list'' @ '' object has no attribute '' @ quoted ''get'')",
        THEN conjunct2, THEN conjunct2, THEN conjunct2, THEN conjunct2, THEN conjunct1, THEN mp, OF conjI [OF f1 f2]]
    by (simp add: s)
  show ?thesis
    apply (intro conjI exI [of _ sample_doc])
    using a b c d e f g h k out by simp_all
qed

subsection \<open>C9: missing sections\<close>

text \<open>
  C9: call a section missing when its key is absent from the raw dictionary or holds a
  false value (\<^verbatim>\<open>None\<close>, \<^verbatim>\<open>False\<close>, 0, 0.0, an empty string, list or dictionary). A
  missing \<^verbatim>\<open>current\<close> gives the record of seven nulls and a missing \<^verbatim>\<open>hourly\<close> or
  \<^verbatim>\<open>daily\<close> gives the empty list, in the section itself and in any document that
  \<open>build_json\<close> returns; \<open>build_json\<close> returns on every well-formed raw response,
  and a raw dictionary is well formed when each section is missing or well formed.
\<close>

theorem missing_sections:
  "(missing raw ''current'' \<longrightarrow>
      current_section raw =
        Inr \<lparr> current.temperature_c = PNone, current.feels_like_c = PNone,
              current.humidity_pct = PNone, current.wind_speed_kmh = PNone,
              current.wind_dir_deg = PNone, current.wind_gust_kmh = PNone,
              current.weather_code = PNone \<rparr>) \<and>
   (missing raw ''hourly'' \<longrightarrow> hourly_section raw = Inr []) \<and>
   (missing raw ''daily'' \<longrightarrow> daily_section raw = Inr []) \<and>
   (build_json t raw p la lo tz = Inr doc \<longrightarrow>
      (missing raw ''current'' \<longrightarrow>
         current doc =
           \<lparr> current.temperature_c = PNone, current.feels_like_c = PNone,
             current.humidity_pct = PNone, current.wind_speed_kmh = PNone,
             current.wind_dir_deg = PNone, current.wind_gust_kmh = PNone,
             current.weather_code = PNone \<rparr>) \<and>
      (missing raw ''hourly'' \<longrightarrow> hourly doc = []) \<and>
      (missing raw ''daily'' \<longrightarrow> daily doc = [])) \<and>
   (wf_raw raw \<longrightarrow> (\<exists>d. build_json t raw p la lo tz = Inr d)) \<and>
   (is_dict raw \<and>
    (missing raw ''current'' \<or> is_dict (dict_get raw ''current'' (PDict []))) \<and>
    (missing raw ''hourly'' \<or> wf_section (dict_get raw ''hourly'' (PDict [])) hourly_keys) \<and>
    (missing raw ''daily'' \<or> wf_section (dict_get raw ''daily'' (PDict [])) daily_keys)
      \<longrightarrow> wf_raw raw)"
proof -
  have c: "current_section raw =
        Inr \<lparr> current.temperature_c = PNone, current.feels_like_c = PNone,
              current.humidity_pct = PNone, current.wind_speed_kmh = PNone,
              current.wind_dir_deg = PNone, current.wind_gust_kmh = PNone,
              current.weather_code = PNone \<rparr>" if "missing raw ''current''"
  proof -
    from that have "is_dict raw" "field_of raw ''current'' (PDict []) = PDict []"
      using missing_field_of by blast+
    then show ?thesis
      by (simp add: current_section_ok expected_current_def safe_float_simps safe_int_simps)
  qed
  have h: "hourly_section raw = Inr []" if "missing raw ''hourly''"
  proof -
    from that have "is_dict raw" "field_of raw ''hourly'' (PDict []) = PDict []"
      using missing_field_of by blast+
    then show ?thesis by (simp add: hourly_section_no_times)
  qed
  have d: "daily_section raw = Inr []" if "missing raw ''daily''"
  proof -
    from that have "is_dict raw" "field_of raw ''daily'' (PDict []) = PDict []"
      using missing_field_of by blast+
    then show ?thesis by (simp add: daily_section_no_times)
  qed
  have r: "(missing raw ''current'' \<longrightarrow>
         current doc =
           \<lparr> current.temperature_c = PNone, current.feels_like_c = PNone,
             current.humidity_pct = PNone, current.wind_speed_kmh = PNone,
             current.wind_dir_deg = PNone, current.wind_gust_kmh = PNone,
             current.weather_code = PNone \<rparr>) \<and>
      (missing raw ''hourly'' \<longrightarrow> hourly doc = []) \<and>
      (missing raw ''daily'' \<longrightarrow> daily doc = [])"
    if "build_json t raw p la lo tz = Inr doc"
    using build_json_Inr(1-3) [OF that] c h d by auto
  have tot: "\<exists>d. build_json t raw p la lo tz = Inr d" if "wf_raw raw"
    using that by (simp add: build_json_ok)
  have wf: "wf_raw raw" if "is_dict raw \<and>
    (missing raw ''current'' \<or> is_dict (dict_get raw ''current'' (PDict []))) \<and>
    (missing raw ''hourly'' \<or> wf_section (dict_get raw ''hourly'' (PDict [])) hourly_keys) \<and>
    (missing raw ''daily'' \<or> wf_section (dict_get raw ''daily'' (PDict [])) daily_keys)"
    using that by (auto simp: wf_raw_def field_of_missing wf_section_empty)
  show ?thesis using c h d r tot wf by blast
qed

theorem missing_sections_witness:
  "missing bare_raw ''current'' \<and> missing bare_raw ''hourly'' \<and> missing bare_raw ''daily'' \<and>
   is_dict bare_raw \<and> wf_raw bare_raw \<and>
   (\<exists>doc. build_json sample_clock bare_raw PLACE_NAME LAT LON TIMEZONE = Inr doc \<and>
      current doc =
        \<lparr> current.temperature_c = PNone, current.feels_like_c = PNone,
          current.humidity_pct = PNone, current.wind_speed_kmh = PNone,
          current.wind_dir_deg = PNone, current.wind_gust_kmh = PNone,
          current.weather_code = PNone \<rparr> \<and>
      hourly doc = [] \<and> daily doc = [])"
proof -
  have i: "is_dict bare_raw" by (simp add: bare_raw_def)
  have w: "wf_raw bare_raw"
    using missing_sections [where raw = bare_raw] bare_raw_missing i by blast
  then obtain doc where doc: "build_json sample_clock bare_raw PLACE_NAME LAT LON TIMEZONE = Inr doc"
    using missing_sections [where raw = bare_raw and t = sample_clock and p = PLACE_NAME
        and la = LAT and lo = LON and tz = TIMEZONE] by blast
  show ?thesis
    using missing_sections [where raw = bare_raw and t = sample_clock and p = PLACE_NAME
        and la = LAT and lo = LON and tz = TIMEZONE and doc = doc] bare_raw_missing i w doc
    by blast
qed

subsection \<open>C10: numeric strings\<close>

text \<open>
  C10 as stated fails at the string \<^verbatim>\<open>"nan"\<close>: it parses as a float, and \<open>safe_int\<close>
  returns null for it, since \<^verbatim>\<open>round\<close> raises on NaN.
\<close>

theorem safe_int_nan_string_counterexample:
  "float_of_str ''nan'' = Some NaN \<and> safe_int (PStr ''nan'') = PNone"
  by code_simp

text \<open>
  C10, amended: for every string \<open>s\<close> that parses as a float \<open>f\<close>, \<open>safe_float s\<close> is
  \<open>f\<close>, and \<open>safe_int s\<close> is \<open>f\<close> rounded to an integer when \<open>f\<close> is finite and null
  when \<open>f\<close> is NaN or an infinity; a string that does not parse gives null in both.
  Every numeric field of the document is \<open>safe_float\<close> or \<open>safe_int\<close> of the raw value
  at its place (\<open>expected_current\<close>, \<open>expected_hourly_row\<close>, \<open>expected_daily_row\<close>), so
  a raw field given as a numeric string appears as that number: a raw temperature and a
  raw humidity given as strings appear as the float and (when finite) the integer in the
  current record.
\<close>

theorem numeric_strings_converted:
  "(float_of_str s = Some f \<longrightarrow>
      safe_float (PStr s) = PFloat f \<and>
      safe_int (PStr s) = (case f of Finite q \<Rightarrow> PInt (round_half_even q) | _ \<Rightarrow> PNone)) \<and>
   (float_of_str s = None \<longrightarrow> safe_float (PStr s) = PNone \<and> safe_int (PStr s) = PNone) \<and>
   (wf_raw raw \<and>
    dict_get (field_of raw ''current'' (PDict [])) ''temperature_2m'' PNone = PStr s \<and>
    dict_get (field_of raw ''current'' (PDict [])) ''relative_humidity_2m'' PNone = PStr s' \<and>
    float_of_str s = Some f \<and> float_of_str s' = Some (Finite q') \<longrightarrow>
      (\<exists>doc. build_json t raw p la lo tz = Inr doc \<and>
         current.temperature_c (current doc) = PFloat f \<and>
         current.humidity_pct (current doc) = PInt (round_half_even q'))) \<and>
   (wf_raw raw \<longrightarrow>
      (\<exists>doc. build_json t raw p la lo tz = Inr doc \<and>
         current doc = expected_current (field_of raw ''current'' (PDict [])) \<and>
         hourly doc =
           map (expected_hourly_row (field_of raw ''hourly'' (PDict []))) [0..<length (hourly doc)] \<and>
         daily doc =
           map (expected_daily_row (field_of raw ''daily'' (PDict []))) [0..<length (daily doc)]))"
proof (intro conjI impI)
  assume "wf_raw raw"
  then show "\<exists>doc. build_json t raw p la lo tz = Inr doc \<and>
         current doc = expected_current (field_of raw ''current'' (PDict [])) \<and>
         hourly doc =
           map (expected_hourly_row (field_of raw ''hourly'' (PDict []))) [0..<length (hourly doc)] \<and>
         daily doc =
           map (expected_daily_row (field_of raw ''daily'' (PDict []))) [0..<length (daily doc)]"
    by (simp add: build_json_ok)
next
  assume "float_of_str s = Some f"
  then show "safe_float (PStr s) = PFloat f"
    and "safe_int (PStr s) = (case f of Finite q \<Rightarrow> PInt (round_half_even q) | _ \<Rightarrow> PNone)"
    by (cases f; simp add: safe_float_simps safe_int_simps)+
next
  assume "float_of_str s = None"
  then show "safe_float (PStr s) = PNone" and "safe_int (PStr s) = PNone"
    by (simp_all add: safe_float_simps safe_int_simps)
next
  assume a: "wf_raw raw \<and>
    dict_get (field_of raw ''current'' (PDict [])) ''temperature_2m'' PNone = PStr s \<and>
    dict_get (field_of raw ''current'' (PDict [])) ''relative_humidity_2m'' PNone = PStr s' \<and>
    float_of_str s = Some f \<and> float_of_str s' = Some (Finite q')"
  then show "\<exists>doc. build_json t raw p la lo tz = Inr doc \<and>
         current.temperature_c (current doc) = PFloat f \<and>
         current.humidity_pct (current doc) = PInt (round_half_even q')"
    by (simp add: build_json_ok expected_current_def safe_float_simps safe_int_simps)
qed

theorem numeric_strings_converted_witness:
  "float_of_str ''21.3'' = Some (Finite (5995417003936973 / 281474976710656)) \<and>
   float_of_str ''58'' = Some (Finite 58) \<and>
   float_of_str ''n/a'' = None \<and>
   wf_raw string_raw \<and>
   safe_float (PStr ''21.3'') = PFloat (Finite (5995417003936973 / 281474976710656)) \<and>
   safe_int (PStr ''58'') = PInt 58 \<and>
   safe_float (PStr ''n/a'') = PNone \<and> safe_int (PStr ''n/a'') = PNone \<and>
   (\<exists>doc. build_json sample_clock string_raw PLACE_NAME LAT LON TIMEZONE = Inr doc \<and>
      current.temperature_c (current doc) = PFloat (Finite (5995417003936973 / 281474976710656)) \<and>
      current.humidity_pct (current doc) = PInt 58)"
proof -
  have h1: "float_of_str ''21.3'' = Some (Finite (5995417003936973 / 281474976710656))"
    by code_simp
  have h2: "float_of_str ''58'' = Some (Finite 58)" by code_simp
  have h3: "float_of_str ''n/a'' = None" by code_simp
  have h4: "dict_get (field_of string_raw ''current'' (PDict [])) ''temperature_2m'' PNone = PStr ''21.3''"
    "dict_get (field_of string_raw ''current'' (PDict [])) ''relative_humidity_2m'' PNone = PStr ''58''"
    by code_simp+
  have r: "round_half_even 58 = 58" by code_simp
  have a: "safe_float (PStr ''21.3'') = PFloat (Finite (5995417003936973 / 281474976710656))"
    using numeric_strings_converted [where s = "''21.3''"] h1 by blast
  have b: "safe_int (PStr ''58'') = PInt 58"
    using numeric_strings_converted [where s = "''58''" and f = "Finite 58"] h2 r by simp
  have c: "safe_float (PStr ''n/a'') = PNone \<and> safe_int (PStr ''n/a'') = PNone"
    using numeric_strings_converted [where s = "''n/a''"] h3 by blast
  have d: "\<exists>doc. build_json sample_clock string_raw PLACE_NAME LAT LON TIMEZONE = Inr doc \<and>
      current.temperature_c (current doc) = PFloat (Finite (5995417003936973 / 281474976710656)) \<and>
      current.humidity_pct (current doc) = PInt (round_half_even 58)"
    using numeric_strings_converted [where s = "''21.3''" and s' = "''58''" and raw = string_raw
        and f = "Finite (5995417003936973 / 281474976710656)" and q' = 58]
      h1 h2 h4 string_raw_wf by blast
  show ?thesis
    using h1 h2 h3 string_raw_wf a b c d by (simp add: r)
qed

end
